theory Spec2Isabelle
  imports Main "HOL-Library.Sublist" "HOL-Library.AList"
begin

section \<open>JavaScript strings and objects\<close>

text \<open>
  A JavaScript string is modelled as a \<open>string\<close> (a list of characters). The string
  methods used by \<open>azureServices.ts\<close> are written out with the results the language
  gives them, also outside the range the source has in mind (\<open>indexOf\<close> of an absent
  character is \<open>-1\<close>, \<open>substr\<close> with a negative length is the empty string).
\<close>

text \<open>\<open>s.split(c)\<close> for a separator of one character: never empty, one more segment
  than there are separators.\<close>

fun split_char :: "char \<Rightarrow> string \<Rightarrow> string list" where
  "split_char c [] = [[]]"
| "split_char c (x # xs) =
     (if x = c then [] # split_char c xs
      else (case split_char c xs of
              [] \<Rightarrow> [[x]]
            | y # ys \<Rightarrow> (x # y) # ys))"

text \<open>\<open>s.indexOf(c)\<close> for a search string of one character.\<close>

fun indexOf :: "string \<Rightarrow> char \<Rightarrow> int" where
  "indexOf [] c = - 1"
| "indexOf (x # xs) c =
     (if x = c then 0
      else (let i = indexOf xs c in if i < 0 then - 1 else i + 1))"

text \<open>\<open>s.substr(start, length)\<close> and \<open>s.substr(start)\<close>: a negative start counts from the
  end, the start is clamped to the string, a length that is not positive gives \<open>""\<close>.\<close>

definition substr_start :: "string \<Rightarrow> int \<Rightarrow> nat" where
  "substr_start s start =
     (let n = int (length s)
      in if start < 0 then nat (max (n + start) 0) else nat (min start n))"

definition substr2 :: "string \<Rightarrow> int \<Rightarrow> int \<Rightarrow> string" where
  "substr2 s start len = take (nat len) (drop (substr_start s start) s)"

definition substr1 :: "string \<Rightarrow> int \<Rightarrow> string" where
  "substr1 s start = drop (substr_start s start) s"

text \<open>\<open>s.replace(pat, rep)\<close> with a string pattern: only the first occurrence of
  \<open>pat\<close> is replaced (the replacement strings of the source contain no \<open>$\<close>, so they
  are inserted literally).\<close>

fun replace_first :: "string \<Rightarrow> string \<Rightarrow> string \<Rightarrow> string" where
  "replace_first pat rep [] = (if pat = [] then rep else [])"
| "replace_first pat rep (x # xs) =
     (if prefix pat (x # xs) then rep @ drop (length pat) (x # xs)
      else x # replace_first pat rep xs)"

text \<open>
  A plain object used as a dictionary, \<open>{ [s: string]: string }\<close>, is a map from its
  own property names to their values. The assignment \<open>result[key] = value\<close> creates or
  overwrites the own property \<open>key\<close>, except for the key \<open>__proto__\<close>: on an object
  literal that assignment reaches the prototype setter, which ignores a string.
\<close>

definition set_prop :: "(string \<rightharpoonup> string) \<Rightarrow> string \<Rightarrow> string \<Rightarrow> (string \<rightharpoonup> string)" where
  "set_prop result key v = (if key = ''__proto__'' then result else result(key \<mapsto> v))"

section \<open>\<open>convertToSettings\<close> and \<open>convertId\<close>\<close>

text \<open>
  \<^verbatim>\<open>
  const fields = parsedConnectionString.split("\n");
  const result = {};
  for (let i = 0; i < fields.length - 1; i++) {
    const key = fields[i].substr(0, fields[i].indexOf("="));
    const value = fields[i].substr(fields[i].indexOf("=") + 1);
    result[key] = value;
  }
  return result;
  \<close>
  The loop is a recursion on the index \<open>i\<close>; \<open>fields[i]\<close> is read only below
  \<open>fields.length - 1\<close>, so it is always in range.
\<close>

definition field_key :: "string \<Rightarrow> string" where
  "field_key f = substr2 f 0 (indexOf f CHR ''='')"

definition field_value :: "string \<Rightarrow> string" where
  "field_value f = substr1 f (indexOf f CHR ''='' + 1)"

text \<open>The body of the loop for the field \<open>f = fields[i]\<close>.\<close>

definition store_field :: "string \<Rightarrow> (string \<rightharpoonup> string) \<Rightarrow> (string \<rightharpoonup> string)" where
  "store_field f result = set_prop result (field_key f) (field_value f)"

function convertToSettings_loop ::
  "string list \<Rightarrow> nat \<Rightarrow> (string \<rightharpoonup> string) \<Rightarrow> (string \<rightharpoonup> string)" where
  "convertToSettings_loop fields i result =
     (if int i < int (length fields) - 1
      then convertToSettings_loop fields (Suc i) (store_field (fields ! i) result)
      else result)"
  by pat_completeness auto
termination
  by (relation "measure (\<lambda>(fields, i, result). length fields - i)") auto

text \<open>The equation of the loop unfolds without end as a rewrite rule; the proofs below
  apply it by hand.\<close>

declare convertToSettings_loop.simps [simp del]

definition convertToSettings :: "string \<Rightarrow> (string \<rightharpoonup> string)" where
  "convertToSettings parsedConnectionString =
     convertToSettings_loop (split_char CHR ''\<newline>'' parsedConnectionString) 0 Map.empty"

text \<open>Modelled from the spec: the string value of the enum member
  \<open>AzureResourceType.AppService\<close> (\<open>constants.ts\<close> is not among the sources); the
  spec's example of a deployment id ends in \<open>-AppService\<close>.\<close>

definition AzureResourceType_AppService :: string where
  "AzureResourceType_AppService = ''AppService''"

definition MS_RESOURCE_DEPLOYMENT :: string where
  "MS_RESOURCE_DEPLOYMENT = ''Microsoft.Resources/deployments''"

definition MS_WEB_SITE :: string where
  "MS_WEB_SITE = ''Microsoft.Web/sites''"

definition convertId :: "string \<Rightarrow> string" where
  "convertId rawId =
     replace_first (''-'' @ AzureResourceType_AppService) ''''
       (replace_first MS_RESOURCE_DEPLOYMENT MS_WEB_SITE rawId)"

section \<open>Data model of \<open>AzureServices\<close>\<close>

datatype AzureResourceType = AppService | Cosmos | Functions

text \<open>The members of \<open>ExtensionCommand\<close> that are keys of \<open>clientCommandMap\<close>
  (\<open>Cmd_Login\<close> is \<open>ExtensionCommand.Login\<close>, and so on).\<close>

datatype ExtensionCommand =
    Cmd_Login
  | Cmd_GetUserStatus
  | Cmd_Logout
  | Cmd_GetSubscriptionDataForCosmos
  | Cmd_GetSubscriptionDataForAppService
  | Cmd_GetValidAppServiceName
  | Cmd_GetValidCosmosName
  | Cmd_NameFunctions
  | Cmd_NameCosmos
  | Cmd_NameAppService

text \<open>
  Every \<open>throw\<close> of the source and every rejected promise is a value of \<open>error\<close>:
  the three error classes of \<open>../errors\<close> with their message, the plain \<open>Error\<close>, the
  \<open>TypeError\<close> of the language (reading a property of \<open>undefined\<close>), and
  \<open>ProviderError\<close> for whatever else a provider rejects with.
\<close>

datatype error =
    SubscriptionError string
  | AuthorizationError string
  | ValidationError string
  | PlainError string
  | TypeError
  | ProviderError string

text \<open>The values a response payload is built from.\<close>

datatype jsval =
    JUndefined
  | JNull
  | JBool bool
  | JString string
  | JArray "jsval list"
  | JObject "(string \<times> jsval) list"

text \<open>\<open>o.k\<close> on the properties of an object: \<open>undefined\<close> when \<open>k\<close> is absent.\<close>

definition get_prop :: "(string \<times> jsval) list \<Rightarrow> string \<Rightarrow> jsval" where
  "get_prop ps k = (case map_of ps k of None \<Rightarrow> JUndefined | Some v \<Rightarrow> v)"

text \<open>A value of type \<open>string | undefined\<close> as a payload field, and its truthiness
  (\<open>undefined\<close> and \<open>""\<close> are falsy).\<close>

definition js_string_opt :: "string option \<Rightarrow> jsval" where
  "js_string_opt r = (case r of None \<Rightarrow> JUndefined | Some x \<Rightarrow> JString x)"

definition truthy :: "string option \<Rightarrow> bool" where
  "truthy r = (case r of None \<Rightarrow> False | Some x \<Rightarrow> x \<noteq> [])"

text \<open>
  \<open>SubscriptionItem\<close> is declared in \<open>azure-auth/azureAuth\<close>; the fields the source
  reads are \<open>label\<close> and \<open>session.tenantId\<close>. Subscription items are objects that
  are shared by reference between the subscription list, the caches and the selections
  and never mutated, so an item is modelled as its contents together with \<open>oid\<close>, the
  identity of the object: \<open>new Set(...)\<close> compares objects by identity, not by
  contents.
\<close>

record AzureSession =
  tenantId :: string

record SubscriptionItem =
  oid :: nat
  label :: string
  session :: AzureSession

record ResourceGroupItem =
  name :: string

text \<open>A resource group as the Azure SDK lists it; its \<open>name\<close> is optional in the SDK's
  type (the source casts it with \<open>as string\<close>).\<close>

record ResourceGroup =
  rg_name :: "string option"

record LocationItem =
  locationDisplayName :: string

record ResourceGroupSelection =
  subscriptionItem :: SubscriptionItem
  resourceGroupName :: "string option"
  location :: string

record SkuDescription =
  sku_tier :: string
  sku_name :: string

record AppServiceSelections =
  siteName :: string
  app_subscriptionItem :: SubscriptionItem
  app_resourceGroupItem :: ResourceGroupItem
  appServicePlanName :: string
  tier :: string
  sku :: string
  linuxFxVersion :: "string option"
  app_location :: string

record FunctionSelections =
  functionAppName :: string
  fn_subscriptionItem :: SubscriptionItem
  fn_resourceGroupItem :: ResourceGroupItem
  fn_location :: string
  runtime :: string
  functionNames :: "string list"

record CosmosDBSelections =
  cosmosAPI :: string
  cosmosDBResourceName :: string
  db_location :: string
  db_resourceGroupItem :: ResourceGroupItem
  db_subscriptionItem :: SubscriptionItem

record DatabaseObject =
  connectionString :: string

record AppNameValidationResult =
  isValid :: bool
  message :: string

text \<open>
  The arguments are typed \<open>any\<close> in the source; each is modelled by the fields the
  source reads. A command message is \<open>{ payload: { scope }, subscription, appName,
  projectName }\<close>; \<open>scope\<close> stands for \<open>message.payload.scope\<close> and is
  \<open>JUndefined\<close> when the message carries no scope token.
\<close>

record command_message =
  scope :: jsval
  subscription :: string
  appName :: string
  projectName :: string

text \<open>The payload of a deployment request: \<open>payload.engine\<close>, the three
  \<open>selected...\<close> flags (by truthiness) and the selections read from
  \<open>payload.functions\<close>, \<open>payload.cosmos\<close> and \<open>payload.appService\<close>.\<close>

record deploy_payload =
  engine_projectName :: string
  engine_path :: string
  engine_backendFramework :: string
  selectedFunctions :: bool
  functions_subscription :: string
  selectedCosmos :: bool
  cosmos_subscription :: string
  selectedAppService :: bool
  appService_subscription :: string
  appService_siteName :: string
  appService_resourceGroup :: string

text \<open>The \<open>selections\<close> argument of \<open>deployFunctionApp\<close> and of
  \<open>deployCosmosResource\<close>.\<close>

record function_selections =
  fsel_subscription :: string
  fsel_appName :: string
  fsel_resourceGroup :: string
  fsel_location :: string
  fsel_runtimeStack :: string
  fsel_functionNames :: "string list"

record cosmos_selections =
  csel_subscription :: string
  csel_api :: string
  csel_accountName :: string
  csel_resourceGroup :: string

text \<open>
  The collaborators of \<open>AzureServices\<close> are not among the sources: the constants of
  \<open>../constants\<close> and \<open>configuration.json\<close>, \<open>AzureAuth\<close>, \<open>NameGenerator\<close>,
  \<open>NameValidator\<close> and the four providers. They are parameters of the model: \<open>env\<close>
  gives the value of each constant and the outcome of each provider call during one
  invocation (\<open>Inl\<close> for a rejected promise, \<open>Inr\<close> for the value it resolves to).
\<close>

record env =
  MICROSOFT_LEARN_TENANTS :: "string list"
  AZURE_LOCATION_CENTRAL_US :: string
  SKU_DESCRIPTION_FREE :: SkuDescription
  SKU_DESCRIPTION_BASIC :: SkuDescription
  ERRORS_LOGIN_TIMEOUT :: string
  ERRORS_SUBSCRIPTION_NOT_FOUND :: string
  ERRORS_APP_SERVICE_UNDEFINED_ID :: string
  BackendFrameworkLinuxVersion :: "string \<Rightarrow> string option"
  AzureAuth_login :: "error + bool"
  AzureAuth_logout :: "error + bool"
  AzureAuth_getEmail :: "string option"
  AzureAuth_getSubscriptions :: "error + SubscriptionItem list"
  AzureAuth_getAllResourceGroupItems :: "SubscriptionItem \<Rightarrow> error + ResourceGroupItem list"
  AzureAuth_getLocationsForCosmos :: "SubscriptionItem \<Rightarrow> error + LocationItem list"
  AzureAuth_getLocationsForApp :: "SubscriptionItem \<Rightarrow> error + LocationItem list"
  AzureAuth_getResourceGroupItem :: "string \<Rightarrow> SubscriptionItem \<Rightarrow> error + ResourceGroupItem"
  generateValidAzureTypeName :: "string \<Rightarrow> AzureResourceType \<Rightarrow> error + string"
  validateFunctionNames :: "string list \<Rightarrow> AppNameValidationResult"
  checkWebAppName :: "string \<Rightarrow> SubscriptionItem \<Rightarrow> error + string option"
  generateValidASPName :: "string \<Rightarrow> error + string"
  createWebApp :: "AppServiceSelections \<Rightarrow> string \<Rightarrow> error + string option"
  validateCosmosDBAccountName :: "string \<Rightarrow> SubscriptionItem \<Rightarrow> error + string option"
  createCosmosDB :: "CosmosDBSelections \<Rightarrow> string \<Rightarrow> error + DatabaseObject"
  checkFunctionAppName :: "string \<Rightarrow> SubscriptionItem \<Rightarrow> error + string option"
  createFunctionApp :: "FunctionSelections \<Rightarrow> string \<Rightarrow> error + unit"
  generateValidResourceGroupName :: "string \<Rightarrow> SubscriptionItem list \<Rightarrow> error + string"
  GetResourceGroups :: "SubscriptionItem \<Rightarrow> error + ResourceGroup list"
  createResourceGroup :: "ResourceGroupSelection \<Rightarrow> error + jsval"

text \<open>The asynchronous operations of the collaborators, as they appear in the record of
  calls.\<close>

datatype provider_op =
    Op_login
  | Op_logout
  | Op_getSubscriptions
  | Op_getAllResourceGroupItems
  | Op_getLocationsForCosmos
  | Op_getLocationsForApp
  | Op_getResourceGroupItem
  | Op_generateValidAzureTypeName
  | Op_checkWebAppName
  | Op_generateValidASPName
  | Op_createWebApp
  | Op_validateCosmosDBAccountName
  | Op_createCosmosDB
  | Op_checkFunctionAppName
  | Op_createFunctionApp
  | Op_generateValidResourceGroupName
  | Op_GetResourceGroups
  | Op_createResourceGroup

text \<open>
  The static fields of the class: the subscription list and the three caches
  (\<open>None\<close> is \<open>undefined\<close>, their value before the first assignment). \<open>calls\<close> is
  not a field of the source: it records, in order, the provider operations invoked so
  far, so that "the create operation is not invoked" can be stated.
\<close>

record state =
  subscriptionItemList :: "SubscriptionItem list"
  usersFunctionSubscriptionItemCache :: "SubscriptionItem option"
  usersCosmosDBSubscriptionItemCache :: "SubscriptionItem option"
  usersAppServiceSubscriptionItemCache :: "SubscriptionItem option"
  calls :: "provider_op list"

definition initial_state :: state where
  "initial_state =
     \<lparr>subscriptionItemList = [],
      usersFunctionSubscriptionItemCache = None,
      usersCosmosDBSubscriptionItemCache = None,
      usersAppServiceSubscriptionItemCache = None,
      calls = []\<rparr>"

section \<open>Asynchronous code as state passing\<close>

text \<open>
  An \<open>async\<close> function is a function from the state to its outcome and the new state.
  \<open>await m f\<close> runs \<open>m\<close> and continues with \<open>f\<close> on the value it resolves to; a
  rejection (or a \<open>throw\<close>) ends the function with that error and the state reached.
  One invocation runs to its end before the next starts.
\<close>

type_synonym 'a async = "state \<Rightarrow> (error + 'a) \<times> state"

definition resolve :: "'a \<Rightarrow> 'a async" where
  "resolve x s = (Inr x, s)"

definition throw :: "error \<Rightarrow> 'a async" where
  "throw e s = (Inl e, s)"

definition await :: "'a async \<Rightarrow> ('a \<Rightarrow> 'b async) \<Rightarrow> 'b async" where
  "await m f s = (case m s of (Inl e, s') \<Rightarrow> (Inl e, s') | (Inr x, s') \<Rightarrow> f x s')"

text \<open>A provider operation with the given outcome: it is recorded in \<open>calls\<close>.\<close>

definition call :: "provider_op \<Rightarrow> error + 'a \<Rightarrow> 'a async" where
  "call op outcome s = (outcome, s\<lparr>calls := calls s @ [op]\<rparr>)"

text \<open>
  Reading a cache field right after its update function has returned. The update
  functions leave the field defined whenever they return, so the \<open>undefined\<close> branch
  is not reachable there (lemma \<open>update_cache_defined\<close> below); it is the \<open>TypeError\<close>
  that reading \<open>session\<close> or \<open>label\<close> of \<open>undefined\<close> raises.
\<close>

definition read_cache :: "(state \<Rightarrow> SubscriptionItem option) \<Rightarrow> SubscriptionItem async" where
  "read_cache field s = (case field s of None \<Rightarrow> (Inl TypeError, s) | Some item \<Rightarrow> (Inr item, s))"

section \<open>The operations of \<open>AzureServices\<close>\<close>

text \<open>
  Each static method of the class is a definition of the same name. The calls of
  \<open>Logger.appendLog\<close> change neither the state nor a result and are left out.
  \<open>validateNameForAzureType\<close>, \<open>promptUserForCosmosReplacement\<close> and
  \<open>updateAppSettings\<close> are not modelled; of the last one, the parser
  \<open>convertToSettings\<close> is (above).
\<close>

definition IsMicrosoftLearnSubscription :: "env \<Rightarrow> SubscriptionItem \<Rightarrow> bool" where
  "IsMicrosoftLearnSubscription c item =
     (tenantId (session item) \<in> set (MICROSOFT_LEARN_TENANTS c))"

subsection \<open>The subscription caches\<close>

text \<open>
  \<^verbatim>\<open>
  if (cache === undefined || subscriptionLabel !== cache.label) {
    const subscriptionItem = AzureServices.subscriptionItemList.find(
      subscriptionItem => subscriptionItem.label === subscriptionLabel);
    if (subscriptionItem) { cache = subscriptionItem; }
    else { throw new SubscriptionError(CONSTANTS.ERRORS.SUBSCRIPTION_NOT_FOUND); }
  }
  \<close>
  The source has this function three times, once for each cache field.
\<close>

definition cache_is_stale :: "SubscriptionItem option \<Rightarrow> string \<Rightarrow> bool" where
  "cache_is_stale cache subscriptionLabel =
     (case cache of None \<Rightarrow> True | Some item \<Rightarrow> subscriptionLabel \<noteq> label item)"

definition updateAppServiceSubscriptionItemCache :: "env \<Rightarrow> string \<Rightarrow> unit async" where
  "updateAppServiceSubscriptionItemCache c subscriptionLabel s =
     (if cache_is_stale (usersAppServiceSubscriptionItemCache s) subscriptionLabel
      then (case List.find (\<lambda>item. label item = subscriptionLabel) (subscriptionItemList s) of
              Some item \<Rightarrow> (Inr (), s\<lparr>usersAppServiceSubscriptionItemCache := Some item\<rparr>)
            | None \<Rightarrow> (Inl (SubscriptionError (ERRORS_SUBSCRIPTION_NOT_FOUND c)), s))
      else (Inr (), s))"

definition updateCosmosDBSubscriptionItemCache :: "env \<Rightarrow> string \<Rightarrow> unit async" where
  "updateCosmosDBSubscriptionItemCache c subscriptionLabel s =
     (if cache_is_stale (usersCosmosDBSubscriptionItemCache s) subscriptionLabel
      then (case List.find (\<lambda>item. label item = subscriptionLabel) (subscriptionItemList s) of
              Some item \<Rightarrow> (Inr (), s\<lparr>usersCosmosDBSubscriptionItemCache := Some item\<rparr>)
            | None \<Rightarrow> (Inl (SubscriptionError (ERRORS_SUBSCRIPTION_NOT_FOUND c)), s))
      else (Inr (), s))"

definition updateFunctionSubscriptionItemCache :: "env \<Rightarrow> string \<Rightarrow> unit async" where
  "updateFunctionSubscriptionItemCache c subscriptionLabel s =
     (if cache_is_stale (usersFunctionSubscriptionItemCache s) subscriptionLabel
      then (case List.find (\<lambda>item. label item = subscriptionLabel) (subscriptionItemList s) of
              Some item \<Rightarrow> (Inr (), s\<lparr>usersFunctionSubscriptionItemCache := Some item\<rparr>)
            | None \<Rightarrow> (Inl (SubscriptionError (ERRORS_SUBSCRIPTION_NOT_FOUND c)), s))
      else (Inr (), s))"

subsection \<open>The command handlers\<close>

definition subscriptionListToDisplay :: "env \<Rightarrow> SubscriptionItem list \<Rightarrow> jsval" where
  "subscriptionListToDisplay c items =
     JArray (map (\<lambda>item. JObject
       [(''label'', JString (label item)),
        (''value'', JString (label item)),
        (''isMicrosoftLearnSubscription'', JBool (IsMicrosoftLearnSubscription c item))]) items)"

definition sendUserStatusIfLoggedIn :: "env \<Rightarrow> command_message \<Rightarrow> jsval async" where
  "sendUserStatusIfLoggedIn c m =
     (if truthy (AzureAuth_getEmail c)
      then await (call Op_getSubscriptions (AzureAuth_getSubscriptions c)) (\<lambda>subs s.
             (Inr (JObject
                [(''scope'', scope m),
                 (''email'', js_string_opt (AzureAuth_getEmail c)),
                 (''subscriptions'', subscriptionListToDisplay c subs)]),
              s\<lparr>subscriptionItemList := subs\<rparr>))
      else resolve JNull)"

definition performLoginForSubscriptions :: "env \<Rightarrow> command_message \<Rightarrow> jsval async" where
  "performLoginForSubscriptions c m =
     await (call Op_login (AzureAuth_login c)) (\<lambda>isLoggedIn.
       if isLoggedIn then sendUserStatusIfLoggedIn c m
       else throw (AuthorizationError (ERRORS_LOGIN_TIMEOUT c)))"

definition performLogout :: "env \<Rightarrow> command_message \<Rightarrow> jsval async" where
  "performLogout c m =
     await (call Op_logout (AzureAuth_logout c)) (\<lambda>success.
       resolve (JObject [(''scope'', scope m), (''success'', JBool success)]))"

definition label_value :: "string \<Rightarrow> jsval" where
  "label_value x = JObject [(''label'', JString x), (''value'', JString x)]"

text \<open>\<open>getSubscriptionData\<close> returns the object \<open>{ resourceGroups, locations }\<close>, here
  the list of its properties.\<close>

definition getSubscriptionData ::
  "env \<Rightarrow> string \<Rightarrow> AzureResourceType \<Rightarrow> ((string \<times> jsval) list) async" where
  "getSubscriptionData c subscriptionLabel AzureType s =
     (case List.find (\<lambda>item. label item = subscriptionLabel) (subscriptionItemList s) of
        None \<Rightarrow> (Inl (SubscriptionError (ERRORS_SUBSCRIPTION_NOT_FOUND c)), s)
      | Some item \<Rightarrow>
          await (call Op_getAllResourceGroupItems (AzureAuth_getAllResourceGroupItems c item))
            (\<lambda>resourceGroups.
          await (case AzureType of
                   Cosmos \<Rightarrow> call Op_getLocationsForCosmos (AzureAuth_getLocationsForCosmos c item)
                 | Functions \<Rightarrow> call Op_getLocationsForApp (AzureAuth_getLocationsForApp c item)
                 | AppService \<Rightarrow> call Op_getLocationsForApp (AzureAuth_getLocationsForApp c item))
            (\<lambda>locationItems.
          resolve
            [(''resourceGroups'', JArray (map (\<lambda>g. label_value (name g)) resourceGroups)),
             (''locations'',
                JArray (map (\<lambda>l. label_value (locationDisplayName l)) locationItems))])) s)"

text \<open>The object literal \<open>{ ...data, k: v }\<close>: the properties of \<open>data\<close>, then \<open>k\<close>
  (\<open>AList.update\<close> overwrites \<open>k\<close> in place when \<open>data\<close> has it, and appends it
  otherwise).\<close>

definition sendAppServiceSubscriptionDataToClient :: "env \<Rightarrow> command_message \<Rightarrow> jsval async" where
  "sendAppServiceSubscriptionDataToClient c m =
     await (getSubscriptionData c (subscription m) AppService) (\<lambda>data.
       resolve (JObject (AList.update ''scope'' (scope m) data)))"

definition sendCosmosSubscriptionDataToClient :: "env \<Rightarrow> command_message \<Rightarrow> jsval async" where
  "sendCosmosSubscriptionDataToClient c m =
     await (getSubscriptionData c (subscription m) Cosmos) (\<lambda>data.
     await (call Op_generateValidAzureTypeName
              (generateValidAzureTypeName c (projectName m) Cosmos)) (\<lambda>validName.
       resolve (JObject
         (AList.update ''scope'' (scope m)
            (AList.update ''validName'' (JString validName) data)))))"

definition GetValidAppServiceName :: "env \<Rightarrow> command_message \<Rightarrow> jsval async" where
  "GetValidAppServiceName c m =
     await (call Op_generateValidAzureTypeName
              (generateValidAzureTypeName c (projectName m) AppService)) (\<lambda>validName.
       resolve (JObject [(''validName'', JString validName), (''scope'', scope m)]))"

definition GetValidCosmosName :: "env \<Rightarrow> command_message \<Rightarrow> jsval async" where
  "GetValidCosmosName c m =
     await (call Op_generateValidAzureTypeName
              (generateValidAzureTypeName c (projectName m) Cosmos)) (\<lambda>validName.
       resolve (JObject [(''validName'', JString validName), (''scope'', scope m)]))"

text \<open>\<open>!invalidReason || invalidReason === undefined || invalidReason === ""\<close>\<close>

definition isAvailable :: "string option \<Rightarrow> bool" where
  "isAvailable invalidReason =
     (\<not> truthy invalidReason \<or> invalidReason = None \<or> invalidReason = Some [])"

definition sendAppServiceNameValidationStatusToClient ::
  "env \<Rightarrow> command_message \<Rightarrow> jsval async" where
  "sendAppServiceNameValidationStatusToClient c m =
     await (updateAppServiceSubscriptionItemCache c (subscription m)) (\<lambda>_.
     await (read_cache usersAppServiceSubscriptionItemCache) (\<lambda>cache.
     await (call Op_checkWebAppName (checkWebAppName c (appName m) cache)) (\<lambda>invalidReason.
       resolve (JObject
         [(''scope'', scope m),
          (''isAvailable'', JBool (isAvailable invalidReason)),
          (''reason'', js_string_opt invalidReason)]))))"

definition sendCosmosNameValidationStatusToClient ::
  "env \<Rightarrow> command_message \<Rightarrow> jsval async" where
  "sendCosmosNameValidationStatusToClient c m =
     await (updateCosmosDBSubscriptionItemCache c (subscription m)) (\<lambda>_.
     await (read_cache usersCosmosDBSubscriptionItemCache) (\<lambda>cache.
     await (call Op_validateCosmosDBAccountName
              (validateCosmosDBAccountName c (appName m) cache)) (\<lambda>invalidReason.
       resolve (JObject
         [(''scope'', scope m),
          (''isAvailable'', JBool (isAvailable invalidReason)),
          (''reason'', js_string_opt invalidReason)]))))"

definition sendFunctionNameValidationStatusToClient ::
  "env \<Rightarrow> command_message \<Rightarrow> jsval async" where
  "sendFunctionNameValidationStatusToClient c m =
     await (updateFunctionSubscriptionItemCache c (subscription m)) (\<lambda>_.
     await (read_cache usersFunctionSubscriptionItemCache) (\<lambda>cache.
     await (call Op_checkFunctionAppName
              (checkFunctionAppName c (appName m) cache)) (\<lambda>invalidReason.
       resolve (JObject
         [(''isAvailable'', JBool (isAvailable invalidReason)),
          (''reason'', js_string_opt invalidReason)]))))"

text \<open>\<open>clientCommandMap\<close>: the handler of each command.\<close>

fun clientCommandMap :: "env \<Rightarrow> ExtensionCommand \<Rightarrow> command_message \<Rightarrow> jsval async" where
  "clientCommandMap c Cmd_Login = performLoginForSubscriptions c"
| "clientCommandMap c Cmd_GetUserStatus = sendUserStatusIfLoggedIn c"
| "clientCommandMap c Cmd_Logout = performLogout c"
| "clientCommandMap c Cmd_GetSubscriptionDataForCosmos = sendCosmosSubscriptionDataToClient c"
| "clientCommandMap c Cmd_GetSubscriptionDataForAppService = sendAppServiceSubscriptionDataToClient c"
| "clientCommandMap c Cmd_GetValidAppServiceName = GetValidAppServiceName c"
| "clientCommandMap c Cmd_GetValidCosmosName = GetValidCosmosName c"
| "clientCommandMap c Cmd_NameFunctions = sendFunctionNameValidationStatusToClient c"
| "clientCommandMap c Cmd_NameCosmos = sendCosmosNameValidationStatusToClient c"
| "clientCommandMap c Cmd_NameAppService = sendAppServiceNameValidationStatusToClient c"

subsection \<open>Resource-group planning\<close>

text \<open>
  \<open>[...new Set(allSubscriptions)]\<close>: the elements in the order of their first
  occurrence; \<open>Set.add\<close> leaves out an object that is already an element, and two
  objects are the same element when they are the same object.
\<close>

definition Set_add :: "SubscriptionItem list \<Rightarrow> SubscriptionItem \<Rightarrow> SubscriptionItem list" where
  "Set_add elems x = (if oid x \<in> oid ` set elems then elems else elems @ [x])"

definition new_Set :: "SubscriptionItem list \<Rightarrow> SubscriptionItem list" where
  "new_Set xs = foldl Set_add [] xs"

text \<open>
  \<open>Promise.all(ps)\<close> over promises that were all started, in the order of the list:
  every one runs (its provider calls are made whether or not another one fails), and
  the result is the list of their values, or an error when one is rejected. When
  several are rejected the source reports the one rejected first in time; the model
  takes the first in the list.
\<close>

fun Promise_all :: "'a async list \<Rightarrow> ('a list) async" where
  "Promise_all [] s = (Inr [], s)"
| "Promise_all (p # ps) s =
     (case p s of (r, s') \<Rightarrow>
        (case Promise_all ps s' of (rs, s'') \<Rightarrow>
           ((case r of
               Inl e \<Rightarrow> Inl e
             | Inr x \<Rightarrow> (case rs of Inl e \<Rightarrow> Inl e | Inr xs \<Rightarrow> Inr (x # xs))),
            s'')))"

text \<open>\<open>resourceGroups[0].name\<close> on an empty array reads \<open>name\<close> of \<open>undefined\<close>: a
  \<open>TypeError\<close>.\<close>

definition generateResourceGroupSelection ::
  "env \<Rightarrow> string \<Rightarrow> SubscriptionItem \<Rightarrow> ResourceGroupSelection async" where
  "generateResourceGroupSelection c generatedName item =
     (if IsMicrosoftLearnSubscription c item
      then await (call Op_GetResourceGroups (GetResourceGroups c item)) (\<lambda>resourceGroups.
             case resourceGroups of
               [] \<Rightarrow> throw TypeError
             | g # _ \<Rightarrow>
                 resolve \<lparr>subscriptionItem = item,
                          resourceGroupName = rg_name g,
                          location = AZURE_LOCATION_CENTRAL_US c\<rparr>)
      else resolve \<lparr>subscriptionItem = item,
                    resourceGroupName = Some generatedName,
                    location = AZURE_LOCATION_CENTRAL_US c\<rparr>)"

definition generateDistinctResourceGroupSelections ::
  "env \<Rightarrow> deploy_payload \<Rightarrow> (ResourceGroupSelection list) async" where
  "generateDistinctResourceGroupSelections c payload =
     await (if selectedFunctions payload
            then await (updateFunctionSubscriptionItemCache c (functions_subscription payload))
                   (\<lambda>_. await (read_cache usersFunctionSubscriptionItemCache)
                   (\<lambda>cache. resolve ([] @ [cache])))
            else resolve []) (\<lambda>all1.
     await (if selectedCosmos payload
            then await (updateCosmosDBSubscriptionItemCache c (cosmos_subscription payload))
                   (\<lambda>_. await (read_cache usersCosmosDBSubscriptionItemCache)
                   (\<lambda>cache. resolve (all1 @ [cache])))
            else resolve all1) (\<lambda>all2.
     await (if selectedAppService payload
            then await (updateAppServiceSubscriptionItemCache c (appService_subscription payload))
                   (\<lambda>_. await (read_cache usersAppServiceSubscriptionItemCache)
                   (\<lambda>cache. resolve (all2 @ [cache])))
            else resolve all2) (\<lambda>allSubscriptions.
     await (call Op_generateValidResourceGroupName
              (generateValidResourceGroupName c (engine_projectName payload)
                 (new_Set allSubscriptions))) (\<lambda>generatedName.
       Promise_all
         (map (generateResourceGroupSelection c generatedName) (new_Set allSubscriptions))))))"

definition deployResourceGroup :: "env \<Rightarrow> ResourceGroupSelection \<Rightarrow> jsval async" where
  "deployResourceGroup c selections =
     (if \<not> IsMicrosoftLearnSubscription c (subscriptionItem selections)
      then call Op_createResourceGroup (createResourceGroup c selections)
      else resolve JUndefined)"

subsection \<open>Deployment\<close>

text \<open>
  The callback the three deploy functions pass to \<open>then\<close> after the name check:
  \<^verbatim>\<open>
  invalidReason => {
    if (invalidReason !== undefined && invalidReason === "") {
      throw new ValidationError(invalidReason);
    }
  }
  \<close>
  The \<open>catch\<close> that follows rethrows its error unchanged.
\<close>

definition throw_if_invalid :: "string option \<Rightarrow> unit async" where
  "throw_if_invalid invalidReason =
     (case invalidReason of
        None \<Rightarrow> resolve ()
      | Some reason \<Rightarrow>
          if invalidReason \<noteq> None \<and> reason = []
          then throw (ValidationError reason)
          else resolve ())"

definition deployWebApp :: "env \<Rightarrow> deploy_payload \<Rightarrow> string async" where
  "deployWebApp c payload =
     await (updateAppServiceSubscriptionItemCache c (appService_subscription payload)) (\<lambda>_.
     await (call Op_generateValidASPName
              (generateValidASPName c (engine_projectName payload))) (\<lambda>aspName.
     await (read_cache usersAppServiceSubscriptionItemCache) (\<lambda>cache.
     await (call Op_getResourceGroupItem
              (AzureAuth_getResourceGroupItem c (appService_resourceGroup payload) cache))
       (\<lambda>resourceGroupItem.
     let appServicePlan =
           (if IsMicrosoftLearnSubscription c cache
            then SKU_DESCRIPTION_FREE c else SKU_DESCRIPTION_BASIC c);
         userAppServiceSelection =
           \<lparr>siteName = appService_siteName payload,
            app_subscriptionItem = cache,
            app_resourceGroupItem = resourceGroupItem,
            appServicePlanName = aspName,
            tier = sku_tier appServicePlan,
            sku = sku_name appServicePlan,
            linuxFxVersion = BackendFrameworkLinuxVersion c (engine_backendFramework payload),
            app_location = AZURE_LOCATION_CENTRAL_US c\<rparr>
     in
     await (call Op_checkWebAppName
              (checkWebAppName c (siteName userAppServiceSelection)
                 (app_subscriptionItem userAppServiceSelection))) (\<lambda>invalidReason.
     await (throw_if_invalid invalidReason) (\<lambda>_.
     await (call Op_createWebApp
              (createWebApp c userAppServiceSelection (engine_path payload))) (\<lambda>result.
       case result of
         None \<Rightarrow> throw (PlainError (ERRORS_APP_SERVICE_UNDEFINED_ID c))
       | Some rawId \<Rightarrow>
           if rawId = [] then throw (PlainError (ERRORS_APP_SERVICE_UNDEFINED_ID c))
           else resolve (convertId rawId))))))))"

definition deployFunctionApp :: "env \<Rightarrow> function_selections \<Rightarrow> string \<Rightarrow> unit async" where
  "deployFunctionApp c selections appPath =
     await (updateFunctionSubscriptionItemCache c (fsel_subscription selections)) (\<lambda>_.
     await (read_cache usersFunctionSubscriptionItemCache) (\<lambda>cache.
     await (call Op_getResourceGroupItem
              (AzureAuth_getResourceGroupItem c (fsel_resourceGroup selections) cache))
       (\<lambda>resourceGroupItem.
     let userFunctionsSelections =
           \<lparr>functionAppName = fsel_appName selections,
            fn_subscriptionItem = cache,
            fn_resourceGroupItem = resourceGroupItem,
            fn_location = fsel_location selections,
            runtime = fsel_runtimeStack selections,
            functionNames = fsel_functionNames selections\<rparr>;
         functionNamesValidation =
           validateFunctionNames c (functionNames userFunctionsSelections)
     in
     if \<not> isValid functionNamesValidation
     then throw (ValidationError (message functionNamesValidation))
     else
     await (call Op_checkFunctionAppName
              (checkFunctionAppName c (functionAppName userFunctionsSelections)
                 (fn_subscriptionItem userFunctionsSelections))) (\<lambda>invalidReason.
     await (throw_if_invalid invalidReason) (\<lambda>_.
       call Op_createFunctionApp
         (createFunctionApp c userFunctionsSelections appPath))))))"

definition deployCosmosResource ::
  "env \<Rightarrow> cosmos_selections \<Rightarrow> string \<Rightarrow> DatabaseObject async" where
  "deployCosmosResource c selections genPath =
     await (updateCosmosDBSubscriptionItemCache c (csel_subscription selections)) (\<lambda>_.
     await (read_cache usersCosmosDBSubscriptionItemCache) (\<lambda>cache.
     await (call Op_getResourceGroupItem
              (AzureAuth_getResourceGroupItem c (csel_resourceGroup selections) cache))
       (\<lambda>resourceGroupItem.
     let userCosmosDBSelection =
           \<lparr>cosmosAPI = csel_api selections,
            cosmosDBResourceName = csel_accountName selections,
            db_location = AZURE_LOCATION_CENTRAL_US c,
            db_resourceGroupItem = resourceGroupItem,
            db_subscriptionItem = cache\<rparr>
     in
     await (call Op_validateCosmosDBAccountName
              (validateCosmosDBAccountName c (cosmosDBResourceName userCosmosDBSelection)
                 (db_subscriptionItem userCosmosDBSelection))) (\<lambda>invalidReason.
     await (throw_if_invalid invalidReason) (\<lambda>_.
       call Op_createCosmosDB
         (createCosmosDB c userCosmosDBSelection genPath))))))"

section \<open>Sequences of calls\<close>

text \<open>
  The definitions of this section are not functions of the source: they name what the
  properties below speak about. \<open>cache_of\<close> is the cache field of a resource kind and
  \<open>updateSubscriptionItemCache\<close> the update function of the source for that kind.
\<close>

definition cache_of :: "AzureResourceType \<Rightarrow> state \<Rightarrow> SubscriptionItem option" where
  "cache_of kind s =
     (case kind of
        AppService \<Rightarrow> usersAppServiceSubscriptionItemCache s
      | Cosmos \<Rightarrow> usersCosmosDBSubscriptionItemCache s
      | Functions \<Rightarrow> usersFunctionSubscriptionItemCache s)"

definition set_cache :: "AzureResourceType \<Rightarrow> SubscriptionItem \<Rightarrow> state \<Rightarrow> state" where
  "set_cache kind item s =
     (case kind of
        AppService \<Rightarrow> s\<lparr>usersAppServiceSubscriptionItemCache := Some item\<rparr>
      | Cosmos \<Rightarrow> s\<lparr>usersCosmosDBSubscriptionItemCache := Some item\<rparr>
      | Functions \<Rightarrow> s\<lparr>usersFunctionSubscriptionItemCache := Some item\<rparr>)"

definition updateSubscriptionItemCache :: "env \<Rightarrow> AzureResourceType \<Rightarrow> string \<Rightarrow> unit async" where
  "updateSubscriptionItemCache c kind subscriptionLabel =
     (case kind of
        AppService \<Rightarrow> updateAppServiceSubscriptionItemCache c subscriptionLabel
      | Cosmos \<Rightarrow> updateCosmosDBSubscriptionItemCache c subscriptionLabel
      | Functions \<Rightarrow> updateFunctionSubscriptionItemCache c subscriptionLabel)"

text \<open>A sequence of cache updates, each given by its kind and label. A call that throws
  leaves the state it reached, and the next call runs from there. \<open>run_updates\<close> is
  the state after the sequence, \<open>successful_updates\<close> the calls that returned.\<close>

fun run_updates :: "env \<Rightarrow> (AzureResourceType \<times> string) list \<Rightarrow> state \<Rightarrow> state" where
  "run_updates c [] s = s"
| "run_updates c ((kind, l) # rest) s =
     run_updates c rest (snd (updateSubscriptionItemCache c kind l s))"

fun successful_updates ::
  "env \<Rightarrow> (AzureResourceType \<times> string) list \<Rightarrow> state \<Rightarrow> (AzureResourceType \<times> string) list" where
  "successful_updates c [] s = []"
| "successful_updates c ((kind, l) # rest) s =
     (case updateSubscriptionItemCache c kind l s of
        (Inl e, s') \<Rightarrow> successful_updates c rest s'
      | (Inr u, s') \<Rightarrow> (kind, l) # successful_updates c rest s')"

definition last_label :: "AzureResourceType \<Rightarrow> (AzureResourceType \<times> string) list \<Rightarrow> string option" where
  "last_label kind cs =
     (case filter (\<lambda>(k, l). k = kind) cs of
        [] \<Rightarrow> None
      | x # xs \<Rightarrow> Some (snd (last (x # xs))))"

text \<open>The cache invariant of the spec: every cache entry that is not \<open>undefined\<close> is an
  element of the current subscription list.\<close>

definition cache_entries :: "state \<Rightarrow> SubscriptionItem option list" where
  "cache_entries s =
     [usersAppServiceSubscriptionItemCache s,
      usersCosmosDBSubscriptionItemCache s,
      usersFunctionSubscriptionItemCache s]"

definition entry_in :: "SubscriptionItem list \<Rightarrow> SubscriptionItem option \<Rightarrow> bool" where
  "entry_in items entry = (case entry of None \<Rightarrow> True | Some item \<Rightarrow> item \<in> set items)"

definition caches_in_list :: "state \<Rightarrow> bool" where
  "caches_in_list s = list_all (entry_in (subscriptionItemList s)) (cache_entries s)"

text \<open>A sequence of command-handler invocations; each comes with the behaviour of the
  collaborators during that invocation.\<close>

fun run_commands :: "(env \<times> ExtensionCommand \<times> command_message) list \<Rightarrow> state \<Rightarrow> state" where
  "run_commands [] s = s"
| "run_commands ((c, cmd, m) # rest) s = run_commands rest (snd (clientCommandMap c cmd m s))"

text \<open>\<open>refresh_keeps_caches c cmd s\<close>: when \<open>cmd\<close> is a command that refreshes the
  subscription list (login and user status), the list the auth provider returns still
  contains every entry cached in \<open>s\<close>.\<close>

definition refresh_keeps_caches :: "env \<Rightarrow> ExtensionCommand \<Rightarrow> state \<Rightarrow> bool" where
  "refresh_keeps_caches c cmd s =
     (if cmd = Cmd_Login \<or> cmd = Cmd_GetUserStatus
      then (case AzureAuth_getSubscriptions c of
              Inl e \<Rightarrow> True
            | Inr subs \<Rightarrow> list_all (entry_in subs) (cache_entries s))
      else True)"

fun refreshes_keep_caches ::
  "(env \<times> ExtensionCommand \<times> command_message) list \<Rightarrow> state \<Rightarrow> bool" where
  "refreshes_keep_caches [] s = True"
| "refreshes_keep_caches ((c, cmd, m) # rest) s =
     (refresh_keeps_caches c cmd s \<and>
      refreshes_keep_caches rest (snd (clientCommandMap c cmd m s)))"

text \<open>
  The entry that the cache update of a resource kind leaves in the cache of that kind
  when it is called with the label \<open>l\<close> in the state \<open>s\<close> and returns: the cached
  entry when it carries \<open>l\<close>, otherwise the first element of the subscription list
  with the label \<open>l\<close>. It is \<open>None\<close> when the label is neither cached nor in the
  list, and then the update throws.
\<close>

definition resolved_entry :: "AzureResourceType \<Rightarrow> string \<Rightarrow> state \<Rightarrow> SubscriptionItem option" where
  "resolved_entry kind l s =
     (if map_option label (cache_of kind s) = Some l then cache_of kind s
      else List.find (\<lambda>item. label item = l) (subscriptionItemList s))"


text \<open>The name-validation command of a resource kind, the name check of the provider of
  that kind, and the name of that check in the record of calls.\<close>

definition name_command :: "AzureResourceType \<Rightarrow> ExtensionCommand" where
  "name_command kind =
     (case kind of
        AppService \<Rightarrow> Cmd_NameAppService
      | Cosmos \<Rightarrow> Cmd_NameCosmos
      | Functions \<Rightarrow> Cmd_NameFunctions)"

definition check_name ::
  "env \<Rightarrow> AzureResourceType \<Rightarrow> string \<Rightarrow> SubscriptionItem \<Rightarrow> error + string option" where
  "check_name c kind =
     (case kind of
        AppService \<Rightarrow> checkWebAppName c
      | Cosmos \<Rightarrow> validateCosmosDBAccountName c
      | Functions \<Rightarrow> checkFunctionAppName c)"

definition check_op :: "AzureResourceType \<Rightarrow> provider_op" where
  "check_op kind =
     (case kind of
        AppService \<Rightarrow> Op_checkWebAppName
      | Cosmos \<Rightarrow> Op_validateCosmosDBAccountName
      | Functions \<Rightarrow> Op_checkFunctionAppName)"

section \<open>Example data\<close>

text \<open>Two subscriptions, the second in a Microsoft Learn tenant, and collaborators that
  answer every call; a name check reports the name \<open>taken\<close> as unavailable and answers
  the empty name with an empty reason.\<close>

definition example_payg :: SubscriptionItem where
  "example_payg = \<lparr>oid = 1, label = ''Pay-As-You-Go'', session = \<lparr>tenantId = ''tenant-1''\<rparr>\<rparr>"

definition example_learn :: SubscriptionItem where
  "example_learn = \<lparr>oid = 2, label = ''Learn Sandbox'', session = \<lparr>tenantId = ''learn-tenant''\<rparr>\<rparr>"

definition example_check :: "string \<Rightarrow> SubscriptionItem \<Rightarrow> error + string option" where
  "example_check n item =
     (if n = ''taken'' then Inr (Some ''name is not available'')
      else if n = [] then Inr (Some [])
      else Inr None)"

definition example_env :: env where
  "example_env =
     \<lparr>MICROSOFT_LEARN_TENANTS = [''learn-tenant''],
      AZURE_LOCATION_CENTRAL_US = ''Central US'',
      SKU_DESCRIPTION_FREE = \<lparr>sku_tier = ''Free'', sku_name = ''F1''\<rparr>,
      SKU_DESCRIPTION_BASIC = \<lparr>sku_tier = ''Basic'', sku_name = ''B1''\<rparr>,
      ERRORS_LOGIN_TIMEOUT = ''login timeout'',
      ERRORS_SUBSCRIPTION_NOT_FOUND = ''subscription not found'',
      ERRORS_APP_SERVICE_UNDEFINED_ID = ''app service id undefined'',
      BackendFrameworkLinuxVersion = (\<lambda>f. Some ''node|10.14''),
      AzureAuth_login = Inr True,
      AzureAuth_logout = Inr True,
      AzureAuth_getEmail = Some ''user@example.com'',
      AzureAuth_getSubscriptions = Inr [example_payg, example_learn],
      AzureAuth_getAllResourceGroupItems = (\<lambda>item. Inr [\<lparr>name = ''rg1''\<rparr>]),
      AzureAuth_getLocationsForCosmos = (\<lambda>item. Inr [\<lparr>locationDisplayName = ''Central US''\<rparr>]),
      AzureAuth_getLocationsForApp = (\<lambda>item. Inr [\<lparr>locationDisplayName = ''Central US''\<rparr>]),
      AzureAuth_getResourceGroupItem = (\<lambda>n item. Inr \<lparr>name = n\<rparr>),
      generateValidAzureTypeName = (\<lambda>p kind. Inr p),
      validateFunctionNames = (\<lambda>ns. \<lparr>isValid = True, message = []\<rparr>),
      checkWebAppName = example_check,
      generateValidASPName = (\<lambda>p. Inr (p @ ''-asp'')),
      createWebApp = (\<lambda>sel path.
        Inr (Some (''/rg/Microsoft.Resources/deployments/'' @ siteName sel @ ''-AppService''))),
      validateCosmosDBAccountName = example_check,
      createCosmosDB = (\<lambda>sel path. Inr \<lparr>connectionString = ''A=1''\<rparr>),
      checkFunctionAppName = example_check,
      createFunctionApp = (\<lambda>sel path. Inr ()),
      generateValidResourceGroupName = (\<lambda>p items. Inr (p @ ''-rg'')),
      GetResourceGroups = (\<lambda>item. Inr [\<lparr>rg_name = Some ''sandbox-rg''\<rparr>]),
      createResourceGroup = (\<lambda>sel. Inr (JString ''created''))\<rparr>"

definition example_state :: state where
  "example_state = initial_state\<lparr>subscriptionItemList := [example_payg, example_learn]\<rparr>"

definition example_message :: command_message where
  "example_message =
     \<lparr>scope = JString ''scope-1'',
      subscription = ''Pay-As-You-Go'',
      appName = ''myapp123'',
      projectName = ''myproject''\<rparr>"

definition example_payload :: deploy_payload where
  "example_payload =
     \<lparr>engine_projectName = ''myproject'',
      engine_path = ''/tmp/myproject'',
      engine_backendFramework = ''Node'',
      selectedFunctions = True,
      functions_subscription = ''Pay-As-You-Go'',
      selectedCosmos = False,
      cosmos_subscription = [],
      selectedAppService = True,
      appService_subscription = ''Pay-As-You-Go'',
      appService_siteName = ''taken'',
      appService_resourceGroup = ''rg1''\<rparr>"

definition example_function_selections :: function_selections where
  "example_function_selections =
     \<lparr>fsel_subscription = ''Pay-As-You-Go'',
      fsel_appName = ''taken'',
      fsel_resourceGroup = ''rg1'',
      fsel_location = ''Central US'',
      fsel_runtimeStack = ''node'',
      fsel_functionNames = [''f1'']\<rparr>"

definition example_cosmos_selections :: cosmos_selections where
  "example_cosmos_selections =
     \<lparr>csel_subscription = ''Pay-As-You-Go'',
      csel_api = ''SQL'',
      csel_accountName = ''taken'',
      csel_resourceGroup = ''rg1''\<rparr>"

section \<open>Properties of the string functions\<close>

lemma split_char_no_sep: "c \<notin> set a \<Longrightarrow> split_char c a = [a]"
  by (induction a) auto

lemma split_char_append: "c \<notin> set a \<Longrightarrow> split_char c (a @ c # b) = a # split_char c b"
  by (induction a) auto

lemma indexOf_absent: "c \<notin> set s \<Longrightarrow> indexOf s c = - 1"
  by (induction s) (auto simp: Let_def)

lemma indexOf_first: "c \<notin> set k \<Longrightarrow> indexOf (k @ c # v) c = int (length k)"
  by (induction k) (auto simp: Let_def)

lemma field_key_eq: "CHR ''='' \<notin> set k \<Longrightarrow> field_key (k @ CHR ''='' # v) = k"
  by (simp add: field_key_def substr2_def substr_start_def indexOf_first)

lemma field_value_eq:
  assumes "CHR ''='' \<notin> set k"
  shows "field_value (k @ CHR ''='' # v) = v"
proof -
  have "nat (int (length k) + 1) = Suc (length k)" by simp
  then show ?thesis
    using assms by (simp add: field_value_def substr1_def substr_start_def indexOf_first)
qed

text \<open>The loop of \<open>convertToSettings\<close> stores every field but the last.\<close>

lemma convertToSettings_loop_fold:
  "convertToSettings_loop fs i result = fold store_field (drop i (butlast fs)) result"
proof (induction fs i result rule: convertToSettings_loop.induct)
  case (1 fs i result)
  show ?case
  proof (cases "int i < int (length fs) - 1")
    case True
    then have "i < length (butlast fs)" by simp
    then have "drop i (butlast fs) = fs ! i # drop (Suc i) (butlast fs)"
      by (metis Cons_nth_drop_Suc nth_butlast)
    then have "fold store_field (drop i (butlast fs)) result
        = fold store_field (drop (Suc i) (butlast fs)) (store_field (fs ! i) result)"
      by simp
    then show ?thesis
      using True 1 [OF True] by (subst convertToSettings_loop.simps) simp
  next
    case False
    then show ?thesis
      by (subst convertToSettings_loop.simps) simp
  qed
qed

lemma fold_store_field:
  "\<forall>(k, v) \<in> set kvs. CHR ''='' \<notin> set k \<and> k \<noteq> ''__proto__'' \<Longrightarrow>
   fold store_field (map (\<lambda>(k, v). k @ ''='' @ v) kvs) m = m ++ map_of (rev kvs)"
proof (induction kvs arbitrary: m)
  case Nil
  then show ?case by simp
next
  case (Cons kv kvs)
  obtain k v where kv: "kv = (k, v)" by (cases kv)
  with Cons.prems have "CHR ''='' \<notin> set k" "k \<noteq> ''__proto__''" by auto
  then have st: "store_field (k @ ''='' @ v) m = m(k \<mapsto> v)"
    by (simp add: store_field_def field_key_eq field_value_eq set_prop_def)
  have "fold store_field (map (\<lambda>(k, v). k @ ''='' @ v) (kv # kvs)) m
      = fold store_field (map (\<lambda>(k, v). k @ ''='' @ v) kvs) (store_field (k @ ''='' @ v) m)"
    using kv by simp
  also have "\<dots> = fold store_field (map (\<lambda>(k, v). k @ ''='' @ v) kvs) (m(k \<mapsto> v))"
    by (simp only: st)
  also have "\<dots> = m(k \<mapsto> v) ++ map_of (rev kvs)"
    using Cons.prems by (intro Cons.IH) simp
  also have "\<dots> = m ++ map_of (rev (kv # kvs))"
    using kv by (auto simp: map_add_def fun_eq_iff split: option.splits)
  finally show ?case .
qed

lemma split_char_lines:
  "\<forall>(k, v) \<in> set kvs. c \<notin> set k \<and> c \<notin> set v \<Longrightarrow> c \<notin> set rest \<Longrightarrow> c \<noteq> CHR ''='' \<Longrightarrow>
   split_char c (concat (map (\<lambda>(k, v). k @ ''='' @ v @ [c]) kvs) @ rest)
     = map (\<lambda>(k, v). k @ ''='' @ v) kvs @ [rest]"
proof (induction kvs)
  case Nil
  then show ?case by (simp add: split_char_no_sep)
next
  case (Cons kv kvs)
  obtain k v where kv: "kv = (k, v)" by (cases kv)
  with Cons.prems have "c \<notin> set (k @ ''='' @ v)" by auto
  then have "split_char c ((k @ ''='' @ v) @ c # (concat (map (\<lambda>(k, v). k @ ''='' @ v @ [c]) kvs) @ rest))
     = (k @ ''='' @ v) # split_char c (concat (map (\<lambda>(k, v). k @ ''='' @ v @ [c]) kvs) @ rest)"
    by (rule split_char_append)
  with Cons kv show ?case by simp
qed

lemma convertToSettings_lines:
  assumes "\<forall>(k, v) \<in> set kvs. CHR ''='' \<notin> set k \<and> CHR ''\<newline>'' \<notin> set k \<and>
             CHR ''\<newline>'' \<notin> set v \<and> k \<noteq> ''__proto__''"
    and "CHR ''\<newline>'' \<notin> set rest"
  shows "convertToSettings (concat (map (\<lambda>(k, v). k @ ''='' @ v @ ''\<newline>'') kvs) @ rest)
           = map_of (rev kvs)"
proof -
  have "split_char CHR ''\<newline>''
          (concat (map (\<lambda>(k, v). k @ ''='' @ v @ [CHR ''\<newline>'']) kvs) @ rest)
     = map (\<lambda>(k, v). k @ ''='' @ v) kvs @ [rest]"
    using assms by (intro split_char_lines) auto
  moreover have "fold store_field (map (\<lambda>(k, v). k @ ''='' @ v) kvs) Map.empty
     = Map.empty ++ map_of (rev kvs)"
    using assms by (intro fold_store_field) auto
  ultimately show ?thesis
    by (simp add: convertToSettings_def convertToSettings_loop_fold)
qed

lemmas convertToSettings_eval =
  convertToSettings_def convertToSettings_loop_fold store_field_def field_key_def
  field_value_def substr2_def substr1_def substr_start_def set_prop_def

lemma replace_first_absent: "\<not> sublist pat s \<Longrightarrow> replace_first pat rep s = s"
  by (induction s) (auto simp: sublist_Cons_right)

lemma replace_first_at_first_occurrence:
  "\<not> sublist pat (p @ butlast pat) \<Longrightarrow> replace_first pat rep (p @ pat @ r) = p @ rep @ r"
proof (induction p)
  case Nil
  then have "pat \<noteq> []" by auto
  then show ?case by (cases pat) auto
next
  case (Cons a p)
  then have ne: "pat \<noteq> []" by auto
  have "\<not> prefix pat (a # p @ pat @ r)"
  proof
    assume pr: "prefix pat (a # p @ pat @ r)"
    have "a # p @ pat @ r = (a # p @ butlast pat) @ (last pat # r)"
      using ne by simp
    with pr have "prefix pat ((a # p @ butlast pat) @ (last pat # r))" by simp
    moreover have "length pat \<le> length (a # p @ butlast pat)" using ne by simp
    ultimately have "prefix pat (a # p @ butlast pat)"
      by (metis prefix_length_prefix prefixI)
    with Cons.prems show False by (auto simp: sublist_altdef)
  qed
  moreover have "\<not> sublist pat (p @ butlast pat)"
    using Cons.prems by (auto simp: sublist_Cons_right)
  ultimately show ?case using Cons.IH by simp
qed

section \<open>Connection-string parsing\<close>

text \<open>
  C2, as the code has it. \<open>convertToSettings\<close> maps \<open>"A=1\nB=2\n"\<close> to
  \<open>{A: "1", B: "2"}\<close> and \<open>"A=x=y\n"\<close> to \<open>{A: "x=y"}\<close>. For every input made of
  lines \<open>key=value\<close> that are each terminated by a newline (keys without \<open>=\<close> and other
  than \<open>__proto__\<close>, values that may contain \<open>=\<close>), followed by any text \<open>rest\<close> without
  a newline, the result holds exactly the entries of the terminated lines, each split
  at its first \<open>=\<close>, a later line overriding an earlier one with the same key. What
  follows the last newline is discarded: the empty segment, but also a last line that
  has no trailing newline.
\<close>

theorem convertToSettings_terminated_lines:
  "convertToSettings ''A=1\<newline>B=2\<newline>'' = [''A'' \<mapsto> ''1'', ''B'' \<mapsto> ''2''] \<and>
   convertToSettings ''A=x=y\<newline>'' = [''A'' \<mapsto> ''x=y''] \<and>
   (\<forall>kvs rest.
      (\<forall>(k, v) \<in> set kvs. CHR ''='' \<notin> set k \<and> CHR ''\<newline>'' \<notin> set k \<and>
          CHR ''\<newline>'' \<notin> set v \<and> k \<noteq> ''__proto__'') \<and>
      CHR ''\<newline>'' \<notin> set rest \<longrightarrow>
      convertToSettings (concat (map (\<lambda>(k, v). k @ ''='' @ v @ ''\<newline>'') kvs) @ rest)
        = map_of (rev kvs))"
proof (intro conjI allI impI)
  show "convertToSettings ''A=1\<newline>B=2\<newline>'' = [''A'' \<mapsto> ''1'', ''B'' \<mapsto> ''2'']"
    by (simp add: convertToSettings_eval)
  show "convertToSettings ''A=x=y\<newline>'' = [''A'' \<mapsto> ''x=y'']"
    by (simp add: convertToSettings_eval)
next
  fix kvs :: "(string \<times> string) list" and rest :: string
  assume "(\<forall>(k, v) \<in> set kvs. CHR ''='' \<notin> set k \<and> CHR ''\<newline>'' \<notin> set k \<and>
          CHR ''\<newline>'' \<notin> set v \<and> k \<noteq> ''__proto__'') \<and> CHR ''\<newline>'' \<notin> set rest"
  then show "convertToSettings (concat (map (\<lambda>(k, v). k @ ''='' @ v @ ''\<newline>'') kvs) @ rest)
        = map_of (rev kvs)"
    by (intro convertToSettings_lines) auto
qed

text \<open>The general part at two terminated lines, the second with a value that contains
  \<open>=\<close>, followed by a third line without a newline.\<close>

theorem convertToSettings_terminated_lines_witness:
  "convertToSettings ''A=1\<newline>B=x=y\<newline>C=3'' = [''A'' \<mapsto> ''1'', ''B'' \<mapsto> ''x=y'']"
  using convertToSettings_terminated_lines
    [THEN conjunct2, THEN conjunct2, THEN spec, THEN spec,
     of "[(''A'', ''1''), (''B'', ''x=y'')]" "''C=3''"]
  by (simp add: fun_eq_iff)

text \<open>C2 as the spec states it fails: without a trailing newline the last well-formed
  line yields no entry.\<close>

theorem convertToSettings_unterminated_line_lost:
  "convertToSettings ''A=1\<newline>B=2'' = [''A'' \<mapsto> ''1''] \<and>
   convertToSettings ''A=1\<newline>B=2'' ''B'' = None"
  by (simp add: convertToSettings_eval)

section \<open>Identifier normalization\<close>

lemmas convertId_eval =
  convertId_def MS_RESOURCE_DEPLOYMENT_def MS_WEB_SITE_def AzureResourceType_AppService_def

text \<open>
  \<open>convertId\<close> replaces the first occurrence of the segment and then removes the first
  occurrence of the token: on an id \<open>p + segment + r1 + token + r2\<close> in which these
  are the first occurrences the result is \<open>p + "Microsoft.Web/sites" + r1 + r2\<close>, and
  an id with neither the segment nor the token is returned unchanged.
\<close>

lemma convertId_at_first_occurrences:
  "(\<forall>p r1 r2.
      \<not> sublist MS_RESOURCE_DEPLOYMENT (p @ butlast MS_RESOURCE_DEPLOYMENT) \<and>
      \<not> sublist (''-'' @ AzureResourceType_AppService)
           (p @ MS_WEB_SITE @ r1 @ butlast (''-'' @ AzureResourceType_AppService)) \<longrightarrow>
      convertId (p @ MS_RESOURCE_DEPLOYMENT @ r1 @ (''-'' @ AzureResourceType_AppService) @ r2)
        = p @ MS_WEB_SITE @ r1 @ r2) \<and>
   (\<forall>rawId.
      \<not> sublist MS_RESOURCE_DEPLOYMENT rawId \<and>
      \<not> sublist (''-'' @ AzureResourceType_AppService) rawId \<longrightarrow>
      convertId rawId = rawId)"
proof (intro conjI allI impI)
  fix p r1 r2 :: string
  let ?tok = "''-'' @ AzureResourceType_AppService"
  assume a: "\<not> sublist MS_RESOURCE_DEPLOYMENT (p @ butlast MS_RESOURCE_DEPLOYMENT) \<and>
      \<not> sublist ?tok (p @ MS_WEB_SITE @ r1 @ butlast ?tok)"
  have "replace_first MS_RESOURCE_DEPLOYMENT MS_WEB_SITE
          (p @ MS_RESOURCE_DEPLOYMENT @ (r1 @ ?tok @ r2)) = p @ MS_WEB_SITE @ (r1 @ ?tok @ r2)"
    using a by (intro replace_first_at_first_occurrence) simp
  moreover have "replace_first ?tok [] ((p @ MS_WEB_SITE @ r1) @ ?tok @ r2)
      = (p @ MS_WEB_SITE @ r1) @ [] @ r2"
    using a by (intro replace_first_at_first_occurrence) simp
  ultimately show "convertId (p @ MS_RESOURCE_DEPLOYMENT @ r1 @ ?tok @ r2) = p @ MS_WEB_SITE @ r1 @ r2"
    by (simp add: convertId_def)
next
  fix rawId :: string
  assume "\<not> sublist MS_RESOURCE_DEPLOYMENT rawId \<and>
      \<not> sublist (''-'' @ AzureResourceType_AppService) rawId"
  then show "convertId rawId = rawId"
    by (simp add: convertId_def replace_first_absent)
qed

text \<open>
  C9 fails on the code. For the deployment id of a site whose name does not contain
  the token, as in the spec's example \<open>myapp\<close>, \<open>convertId\<close> returns the id of the
  site. For the site \<open>my-AppService-x\<close>, whose deployment is named
  \<open>my-AppService-x-AppService\<close>, it removes the token inside the name and leaves the
  suffix: the result names \<open>my-x-AppService\<close>, which is not the id of the site, where
  the claim has the suffix token stripped.
\<close>

theorem convertId_strips_token_inside_name:
  "convertId ''/subscriptions/s1/resourceGroups/rg1/providers/Microsoft.Resources/deployments/myapp-AppService''
     = ''/subscriptions/s1/resourceGroups/rg1/providers/Microsoft.Web/sites/myapp'' \<and>
   convertId ''/subscriptions/s1/resourceGroups/rg1/providers/Microsoft.Resources/deployments/my-AppService-x-AppService''
     = ''/subscriptions/s1/resourceGroups/rg1/providers/Microsoft.Web/sites/my-x-AppService'' \<and>
   convertId ''/subscriptions/s1/resourceGroups/rg1/providers/Microsoft.Resources/deployments/my-AppService-x-AppService''
     \<noteq> ''/subscriptions/s1/resourceGroups/rg1/providers/Microsoft.Web/sites/my-AppService-x''"
  by (simp add: convertId_eval)

section \<open>Properties of the cache updates\<close>

lemmas async_defs = await_def resolve_def throw_def call_def read_cache_def

lemma find_label: "List.find (\<lambda>i. label i = l) xs = Some item \<Longrightarrow> label item = l \<and> item \<in> set xs"
  by (induction xs) (auto split: if_splits)

lemma find_label_None: "(List.find (\<lambda>i. label i = l) xs = None) = (\<forall>item \<in> set xs. label item \<noteq> l)"
  by (induction xs) auto

lemma stale_iff: "cache_is_stale cache l = (map_option label cache \<noteq> Some l)"
  by (cases cache) (auto simp: cache_is_stale_def)

lemma updateAppService_eq:
  "updateAppServiceSubscriptionItemCache c l s =
     (if map_option label (usersAppServiceSubscriptionItemCache s) \<noteq> Some l
      then (case List.find (\<lambda>i. label i = l) (subscriptionItemList s) of
              Some item \<Rightarrow> (Inr (), s\<lparr>usersAppServiceSubscriptionItemCache := Some item\<rparr>)
            | None \<Rightarrow> (Inl (SubscriptionError (ERRORS_SUBSCRIPTION_NOT_FOUND c)), s))
      else (Inr (), s))"
  by (simp add: updateAppServiceSubscriptionItemCache_def stale_iff)

lemma updateCosmosDB_eq:
  "updateCosmosDBSubscriptionItemCache c l s =
     (if map_option label (usersCosmosDBSubscriptionItemCache s) \<noteq> Some l
      then (case List.find (\<lambda>i. label i = l) (subscriptionItemList s) of
              Some item \<Rightarrow> (Inr (), s\<lparr>usersCosmosDBSubscriptionItemCache := Some item\<rparr>)
            | None \<Rightarrow> (Inl (SubscriptionError (ERRORS_SUBSCRIPTION_NOT_FOUND c)), s))
      else (Inr (), s))"
  by (simp add: updateCosmosDBSubscriptionItemCache_def stale_iff)

lemma updateFunction_eq:
  "updateFunctionSubscriptionItemCache c l s =
     (if map_option label (usersFunctionSubscriptionItemCache s) \<noteq> Some l
      then (case List.find (\<lambda>i. label i = l) (subscriptionItemList s) of
              Some item \<Rightarrow> (Inr (), s\<lparr>usersFunctionSubscriptionItemCache := Some item\<rparr>)
            | None \<Rightarrow> (Inl (SubscriptionError (ERRORS_SUBSCRIPTION_NOT_FOUND c)), s))
      else (Inr (), s))"
  by (simp add: updateFunctionSubscriptionItemCache_def stale_iff)

lemma updateSubscriptionItemCache_eq:
  "updateSubscriptionItemCache c kind l s =
     (if map_option label (cache_of kind s) \<noteq> Some l
      then (case List.find (\<lambda>i. label i = l) (subscriptionItemList s) of
              Some item \<Rightarrow> (Inr (), set_cache kind item s)
            | None \<Rightarrow> (Inl (SubscriptionError (ERRORS_SUBSCRIPTION_NOT_FOUND c)), s))
      else (Inr (), s))"
proof (cases kind)
  case AppService
  then show ?thesis
    by (auto simp: updateSubscriptionItemCache_def cache_of_def set_cache_def updateAppService_eq
          split: option.splits)
next
  case Cosmos
  then show ?thesis
    by (auto simp: updateSubscriptionItemCache_def cache_of_def set_cache_def updateCosmosDB_eq
          split: option.splits)
next
  case Functions
  then show ?thesis
    by (auto simp: updateSubscriptionItemCache_def cache_of_def set_cache_def updateFunction_eq
          split: option.splits)
qed

lemma cache_of_set_cache:
  "cache_of k (set_cache kind item s) = (if k = kind then Some item else cache_of k s)"
  by (cases kind; cases k) (simp_all add: cache_of_def set_cache_def)

lemma list_set_cache: "subscriptionItemList (set_cache kind item s) = subscriptionItemList s"
  by (cases kind) (simp_all add: set_cache_def)

lemma calls_set_cache: "calls (set_cache kind item s) = calls s"
  by (cases kind) (simp_all add: set_cache_def)

lemma update_throws:
  "updateSubscriptionItemCache c kind l s = (Inl e, s') \<Longrightarrow>
     s' = s \<and> e = SubscriptionError (ERRORS_SUBSCRIPTION_NOT_FOUND c)"
  by (auto simp: updateSubscriptionItemCache_eq split: if_splits option.splits)

lemma update_returns:
  assumes "updateSubscriptionItemCache c kind l s = (Inr u, s')"
  shows "(\<exists>item. cache_of kind s' = Some item \<and> label item = l) \<and>
         (\<forall>k. k \<noteq> kind \<longrightarrow> cache_of k s' = cache_of k s) \<and>
         subscriptionItemList s' = subscriptionItemList s \<and> calls s' = calls s"
proof (cases "map_option label (cache_of kind s) = Some l")
  case True
  with assms have "s' = s" by (simp add: updateSubscriptionItemCache_eq)
  moreover from True obtain item where "cache_of kind s = Some item" "label item = l"
    by (cases "cache_of kind s") simp_all
  ultimately show ?thesis by simp
next
  case False
  show ?thesis
  proof (cases "List.find (\<lambda>i. label i = l) (subscriptionItemList s)")
    case None
    with assms False show ?thesis by (simp add: updateSubscriptionItemCache_eq)
  next
    case (Some item)
    with assms False have s': "s' = set_cache kind item s"
      by (simp add: updateSubscriptionItemCache_eq)
    from Some have "label item = l" by (rule find_label [THEN conjunct1])
    with s' show ?thesis by (simp add: cache_of_set_cache list_set_cache calls_set_cache)
  qed
qed

lemma update_frame:
  "subscriptionItemList (snd (updateSubscriptionItemCache c kind l s)) = subscriptionItemList s \<and>
   calls (snd (updateSubscriptionItemCache c kind l s)) = calls s \<and>
   (\<forall>k. k \<noteq> kind \<longrightarrow>
      cache_of k (snd (updateSubscriptionItemCache c kind l s)) = cache_of k s)"
proof (cases "updateSubscriptionItemCache c kind l s")
  case (Pair r s')
  show ?thesis
  proof (cases r)
    case (Inl e)
    with Pair have "s' = s" using update_throws [of c kind l s e s'] by simp
    with Pair show ?thesis by simp
  next
    case (Inr u)
    with Pair show ?thesis using update_returns [of c kind l s u s'] by simp
  qed
qed

lemma update_list:
  "subscriptionItemList (snd (updateSubscriptionItemCache c kind l s)) = subscriptionItemList s"
  by (simp add: update_frame)

lemma run_updates_list: "subscriptionItemList (run_updates c cs s) = subscriptionItemList s"
  by (induction cs arbitrary: s) (auto simp: update_list)

lemma last_label_Cons:
  "last_label kind ((k, l) # cs) =
     (case last_label kind cs of Some x \<Rightarrow> Some x | None \<Rightarrow> if k = kind then Some l else None)"
  by (auto simp: last_label_def split: list.splits)

lemma run_updates_cache:
  "(case last_label kind (successful_updates c cs s) of
      None \<Rightarrow> cache_of kind (run_updates c cs s) = cache_of kind s
    | Some l \<Rightarrow> (\<exists>item. cache_of kind (run_updates c cs s) = Some item \<and> label item = l))"
proof (induction cs arbitrary: s)
  case Nil
  then show ?case by (simp add: last_label_def)
next
  case (Cons a cs)
  obtain k l where a: "a = (k, l)" by (cases a)
  obtain r s' where step: "updateSubscriptionItemCache c k l s = (r, s')"
    by (cases "updateSubscriptionItemCache c k l s")
  have run: "run_updates c (a # cs) s = run_updates c cs s'"
    using a step by simp
  show ?case
  proof (cases r)
    case (Inl e)
    with step have "s' = s" using update_throws [of c k l s e s'] by simp
    moreover have "successful_updates c (a # cs) s = successful_updates c cs s'"
      using a step Inl by simp
    ultimately show ?thesis using Cons.IH [of s] run by (simp split: option.splits)
  next
    case (Inr u)
    with step have ret: "(\<exists>item. cache_of k s' = Some item \<and> label item = l)"
        "\<forall>k'. k' \<noteq> k \<longrightarrow> cache_of k' s' = cache_of k' s"
      using update_returns [of c k l s u s'] by auto
    have succ: "successful_updates c (a # cs) s = (k, l) # successful_updates c cs s'"
      using a step Inr by simp
    show ?thesis
    proof (cases "last_label kind (successful_updates c cs s')")
      case (Some x)
      then show ?thesis using Cons.IH [of s'] run succ by (simp add: last_label_Cons split: option.splits)
    next
      case None
      then have same: "cache_of kind (run_updates c cs s') = cache_of kind s'"
        using Cons.IH [of s'] by simp
      show ?thesis
      proof (cases "k = kind")
        case True
        then show ?thesis using None same ret(1) run succ by (simp add: last_label_Cons)
      next
        case False
        then show ?thesis using None same ret(2) run succ by (simp add: last_label_Cons)
      qed
    qed
  qed
qed

section \<open>The subscription caches\<close>

text \<open>
  C3. A call of the update function of a resource kind with a label \<open>l\<close>: if the
  cached entry of that kind carries \<open>l\<close>, the call returns and the state is
  unchanged; otherwise, if the subscription list has an item with label \<open>l\<close>, the
  call returns and the entry is replaced by the first such item of the list; otherwise
  the call throws \<open>SubscriptionError\<close> with the subscription-not-found message and
  the state is unchanged. The cache of another kind is never changed. Hence after any
  sequence \<open>cs\<close> of calls, the entry of a kind carries the label of the most recent
  call for that kind that returned, and is the entry from before the sequence when
  none did.
\<close>

theorem cache_update_sequence:
  "(map_option label (cache_of kind s) = Some l \<longrightarrow>
      updateSubscriptionItemCache c kind l s = (Inr (), s)) \<and>
   (\<forall>item. map_option label (cache_of kind s) \<noteq> Some l \<and>
      List.find (\<lambda>i. label i = l) (subscriptionItemList s) = Some item \<longrightarrow>
      updateSubscriptionItemCache c kind l s = (Inr (), set_cache kind item s) \<and>
      cache_of kind (set_cache kind item s) = Some item \<and>
      label item = l \<and> item \<in> set (subscriptionItemList s)) \<and>
   (map_option label (cache_of kind s) \<noteq> Some l \<and>
      (\<forall>item \<in> set (subscriptionItemList s). label item \<noteq> l) \<longrightarrow>
      updateSubscriptionItemCache c kind l s
        = (Inl (SubscriptionError (ERRORS_SUBSCRIPTION_NOT_FOUND c)), s)) \<and>
   (\<forall>k. k \<noteq> kind \<longrightarrow>
      cache_of k (snd (updateSubscriptionItemCache c kind l s)) = cache_of k s) \<and>
   (case last_label kind (successful_updates c cs s) of
      None \<Rightarrow> cache_of kind (run_updates c cs s) = cache_of kind s
    | Some l' \<Rightarrow> (\<exists>item. cache_of kind (run_updates c cs s) = Some item \<and> label item = l'))"
proof (intro conjI allI impI)
  assume "map_option label (cache_of kind s) = Some l"
  then show "updateSubscriptionItemCache c kind l s = (Inr (), s)"
    by (simp add: updateSubscriptionItemCache_eq)
next
  fix item
  assume a: "map_option label (cache_of kind s) \<noteq> Some l \<and>
      List.find (\<lambda>i. label i = l) (subscriptionItemList s) = Some item"
  then show "updateSubscriptionItemCache c kind l s = (Inr (), set_cache kind item s)"
    by (simp add: updateSubscriptionItemCache_eq)
  show "cache_of kind (set_cache kind item s) = Some item"
    by (simp add: cache_of_set_cache)
  from a show "label item = l" "item \<in> set (subscriptionItemList s)"
    by (auto dest: find_label)
next
  assume a: "map_option label (cache_of kind s) \<noteq> Some l \<and>
      (\<forall>item \<in> set (subscriptionItemList s). label item \<noteq> l)"
  then have "List.find (\<lambda>i. label i = l) (subscriptionItemList s) = None"
    by (simp add: find_label_None)
  with a show "updateSubscriptionItemCache c kind l s
        = (Inl (SubscriptionError (ERRORS_SUBSCRIPTION_NOT_FOUND c)), s)"
    by (simp add: updateSubscriptionItemCache_eq)
next
  fix k
  assume "k \<noteq> kind"
  then show "cache_of k (snd (updateSubscriptionItemCache c kind l s)) = cache_of k s"
    by (simp add: update_frame)
next
  show "(case last_label kind (successful_updates c cs s) of
      None \<Rightarrow> cache_of kind (run_updates c cs s) = cache_of kind s
    | Some l' \<Rightarrow> (\<exists>item. cache_of kind (run_updates c cs s) = Some item \<and> label item = l'))"
    by (rule run_updates_cache)
qed

text \<open>The five parts at the example data: a call that finds the label cached, one that
  replaces an undefined entry, one with a label that is not in the list, a call for
  another kind, and a sequence whose last call for the kind throws.\<close>

theorem cache_update_sequence_witness:
  "updateSubscriptionItemCache example_env AppService ''Pay-As-You-Go''
       (set_cache AppService example_payg example_state)
     = (Inr (), set_cache AppService example_payg example_state) \<and>
   updateSubscriptionItemCache example_env AppService ''Pay-As-You-Go'' example_state
     = (Inr (), set_cache AppService example_payg example_state) \<and>
   updateSubscriptionItemCache example_env AppService ''Unknown'' example_state
     = (Inl (SubscriptionError ''subscription not found''), example_state) \<and>
   cache_of Cosmos
       (snd (updateSubscriptionItemCache example_env AppService ''Pay-As-You-Go'' example_state))
     = None \<and>
   (\<exists>item.
      cache_of AppService
        (run_updates example_env
           [(AppService, ''Learn Sandbox''), (Cosmos, ''Pay-As-You-Go''), (AppService, ''Unknown'')]
           example_state) = Some item \<and>
      label item = ''Learn Sandbox'')"
proof -
  have list: "subscriptionItemList example_state = [example_payg, example_learn]"
    by (simp add: example_state_def)
  have none: "cache_of AppService example_state = None" "cache_of Cosmos example_state = None"
    by (simp_all add: example_state_def initial_state_def cache_of_def)
  have labels: "label example_payg = ''Pay-As-You-Go''" "label example_learn = ''Learn Sandbox''"
    by (simp_all add: example_payg_def example_learn_def)
  have msg: "ERRORS_SUBSCRIPTION_NOT_FOUND example_env = ''subscription not found''"
    by (simp add: example_env_def)
  have hit: "updateSubscriptionItemCache example_env AppService ''Pay-As-You-Go''
       (set_cache AppService example_payg example_state)
     = (Inr (), set_cache AppService example_payg example_state)"
    using cache_update_sequence
      [of AppService "set_cache AppService example_payg example_state" "''Pay-As-You-Go''"
          example_env "[]", THEN conjunct1]
    by (simp add: cache_of_set_cache labels)
  have found: "updateSubscriptionItemCache example_env AppService ''Pay-As-You-Go'' example_state
     = (Inr (), set_cache AppService example_payg example_state)"
    using cache_update_sequence
      [of AppService example_state "''Pay-As-You-Go''" example_env "[]",
       THEN conjunct2, THEN conjunct1, THEN spec, of example_payg]
    by (simp add: none list labels)
  have absent: "updateSubscriptionItemCache example_env AppService ''Unknown'' example_state
     = (Inl (SubscriptionError ''subscription not found''), example_state)"
    using cache_update_sequence
      [of AppService example_state "''Unknown''" example_env "[]",
       THEN conjunct2, THEN conjunct2, THEN conjunct1]
    by (simp add: none list labels msg)
  have other: "cache_of Cosmos
       (snd (updateSubscriptionItemCache example_env AppService ''Pay-As-You-Go'' example_state))
     = None"
    using cache_update_sequence
      [of AppService example_state "''Pay-As-You-Go''" example_env "[]",
       THEN conjunct2, THEN conjunct2, THEN conjunct2, THEN conjunct1, THEN spec, of Cosmos]
    by (simp add: none)
  let ?cs = "[(AppService, ''Learn Sandbox''), (Cosmos, ''Pay-As-You-Go''), (AppService, ''Unknown'')]"
  have "successful_updates example_env ?cs example_state
      = [(AppService, ''Learn Sandbox''), (Cosmos, ''Pay-As-You-Go'')]"
    by (simp add: updateSubscriptionItemCache_eq example_state_def initial_state_def
          cache_of_def set_cache_def labels example_payg_def example_learn_def)
  then have "last_label AppService (successful_updates example_env ?cs example_state)
      = Some ''Learn Sandbox''"
    by (simp add: last_label_def)
  then have seq: "\<exists>item.
      cache_of AppService (run_updates example_env ?cs example_state) = Some item \<and>
      label item = ''Learn Sandbox''"
    using cache_update_sequence
      [of AppService example_state "''Pay-As-You-Go''" example_env ?cs,
       THEN conjunct2, THEN conjunct2, THEN conjunct2, THEN conjunct2]
    by simp
  from hit found absent other seq show ?thesis by blast
qed

section \<open>Name validation\<close>

lemma update_cache_defined:
  "updateSubscriptionItemCache c kind l s = (Inr u, s') \<Longrightarrow>
     \<exists>item. cache_of kind s' = Some item \<and> label item = l"
  using update_returns [of c kind l s u s'] by simp

lemma isAvailable_iff: "isAvailable r = (r = None \<or> r = Some [])"
  by (cases r) (auto simp: isAvailable_def truthy_def)

text \<open>A name-validation handler in terms of the cache update and the name check of its kind.\<close>

lemma name_handler_eq:
  "clientCommandMap c (name_command kind) m s =
     (case updateSubscriptionItemCache c kind (subscription m) s of
        (Inl e, s1) \<Rightarrow> (Inl e, s1)
      | (Inr u, s1) \<Rightarrow>
          (case cache_of kind s1 of
             None \<Rightarrow> (Inl TypeError, s1)
           | Some item \<Rightarrow>
               (case check_name c kind (appName m) item of
                  Inl e \<Rightarrow> (Inl e, s1\<lparr>calls := calls s1 @ [check_op kind]\<rparr>)
                | Inr r \<Rightarrow>
                    (Inr (JObject
                       ((if kind = Functions then [] else [(''scope'', scope m)]) @
                        [(''isAvailable'', JBool (isAvailable r)),
                         (''reason'', js_string_opt r)])),
                     s1\<lparr>calls := calls s1 @ [check_op kind]\<rparr>))))"
proof (cases kind)
  case AppService
  then show ?thesis
    by (auto simp: name_command_def check_name_def check_op_def cache_of_def
          updateSubscriptionItemCache_def sendAppServiceNameValidationStatusToClient_def async_defs
          split: prod.splits sum.splits option.splits)
next
  case Cosmos
  then show ?thesis
    by (auto simp: name_command_def check_name_def check_op_def cache_of_def
          updateSubscriptionItemCache_def sendCosmosNameValidationStatusToClient_def async_defs
          split: prod.splits sum.splits option.splits)
next
  case Functions
  then show ?thesis
    by (auto simp: name_command_def check_name_def check_op_def cache_of_def
          updateSubscriptionItemCache_def sendFunctionNameValidationStatusToClient_def async_defs
          split: prod.splits sum.splits option.splits)
qed

text \<open>
  C6. For the name-validation command of every resource kind: when the cache update
  throws, the handler throws that error; when it returns, the cache entry of the kind
  is defined, and then the handler throws exactly when the provider's name check is
  rejected, with the provider's error, and otherwise returns a payload whose
  \<open>isAvailable\<close> is true if and only if the reason \<open>r\<close> of the check is
  \<open>undefined\<close> or the empty string, and whose \<open>reason\<close> is \<open>r\<close> unchanged. So a
  name that is merely unavailable never makes the handler throw.
\<close>

theorem name_validation_reports_unavailable:
  "(\<forall>e s1. updateSubscriptionItemCache c kind (subscription m) s = (Inl e, s1) \<longrightarrow>
      clientCommandMap c (name_command kind) m s = (Inl e, s1)) \<and>
   (\<forall>u s1. updateSubscriptionItemCache c kind (subscription m) s = (Inr u, s1) \<longrightarrow>
      (\<exists>item. cache_of kind s1 = Some item \<and>
         (\<forall>e. check_name c kind (appName m) item = Inl e \<longrightarrow>
            fst (clientCommandMap c (name_command kind) m s) = Inl e) \<and>
         (\<forall>r. check_name c kind (appName m) item = Inr r \<longrightarrow>
            (\<exists>ps. fst (clientCommandMap c (name_command kind) m s) = Inr (JObject ps) \<and>
               get_prop ps ''isAvailable'' = JBool (r = None \<or> r = Some []) \<and>
               get_prop ps ''reason'' = js_string_opt r))))"
proof (intro conjI allI impI)
  fix e s1
  assume "updateSubscriptionItemCache c kind (subscription m) s = (Inl e, s1)"
  then show "clientCommandMap c (name_command kind) m s = (Inl e, s1)"
    by (simp add: name_handler_eq)
next
  fix u s1
  assume up: "updateSubscriptionItemCache c kind (subscription m) s = (Inr u, s1)"
  then obtain item where item: "cache_of kind s1 = Some item"
    using update_cache_defined by blast
  have rej: "\<forall>e. check_name c kind (appName m) item = Inl e \<longrightarrow>
            fst (clientCommandMap c (name_command kind) m s) = Inl e"
    using up item by (simp add: name_handler_eq)
  have res: "\<forall>r. check_name c kind (appName m) item = Inr r \<longrightarrow>
            (\<exists>ps. fst (clientCommandMap c (name_command kind) m s) = Inr (JObject ps) \<and>
               get_prop ps ''isAvailable'' = JBool (r = None \<or> r = Some []) \<and>
               get_prop ps ''reason'' = js_string_opt r)"
    using up item by (simp add: name_handler_eq get_prop_def isAvailable_iff)
  from item rej res
  show "\<exists>item. cache_of kind s1 = Some item \<and>
         (\<forall>e. check_name c kind (appName m) item = Inl e \<longrightarrow>
            fst (clientCommandMap c (name_command kind) m s) = Inl e) \<and>
         (\<forall>r. check_name c kind (appName m) item = Inr r \<longrightarrow>
            (\<exists>ps. fst (clientCommandMap c (name_command kind) m s) = Inr (JObject ps) \<and>
               get_prop ps ''isAvailable'' = JBool (r = None \<or> r = Some []) \<and>
               get_prop ps ''reason'' = js_string_opt r))"
    by blast
qed


lemmas example_defs =
  example_env_def example_state_def initial_state_def example_payg_def example_learn_def
  example_message_def example_check_def

text \<open>The App Service handler at a name the provider reports as taken, and at a
  subscription label that is not in the list.\<close>

theorem name_validation_reports_unavailable_witness:
  "(\<exists>ps. fst (clientCommandMap example_env Cmd_NameAppService
               (example_message\<lparr>appName := ''taken''\<rparr>) example_state) = Inr (JObject ps) \<and>
      get_prop ps ''isAvailable'' = JBool False \<and>
      get_prop ps ''reason'' = JString ''name is not available'') \<and>
   clientCommandMap example_env Cmd_NameAppService
       (example_message\<lparr>subscription := ''Unknown''\<rparr>) example_state
     = (Inl (SubscriptionError ''subscription not found''), example_state)"
proof -
  let ?m = "example_message\<lparr>appName := ''taken''\<rparr>"
  let ?m' = "example_message\<lparr>subscription := ''Unknown''\<rparr>"
  let ?s1 = "set_cache AppService example_payg example_state"
  have up: "updateSubscriptionItemCache example_env AppService (subscription ?m) example_state
      = (Inr (), ?s1)"
    by (simp add: updateSubscriptionItemCache_eq cache_of_def example_defs)
  have chk: "check_name example_env AppService (appName ?m) example_payg
      = Inr (Some ''name is not available'')"
    by (simp add: check_name_def example_defs)
  have cache: "cache_of AppService ?s1 = Some example_payg"
    by (simp add: cache_of_set_cache)
  have taken: "\<exists>ps. fst (clientCommandMap example_env Cmd_NameAppService ?m example_state)
        = Inr (JObject ps) \<and>
      get_prop ps ''isAvailable'' = JBool False \<and>
      get_prop ps ''reason'' = JString ''name is not available''"
    using name_validation_reports_unavailable
      [of example_env AppService ?m example_state, THEN conjunct2, rule_format, OF up]
      chk cache
    by (auto simp: name_command_def js_string_opt_def)
  have up': "updateSubscriptionItemCache example_env AppService (subscription ?m') example_state
      = (Inl (SubscriptionError ''subscription not found''), example_state)"
    by (simp add: updateSubscriptionItemCache_eq cache_of_def example_defs)
  have unknown: "clientCommandMap example_env Cmd_NameAppService ?m' example_state
     = (Inl (SubscriptionError ''subscription not found''), example_state)"
    using name_validation_reports_unavailable
      [of example_env AppService ?m' example_state, THEN conjunct1, rule_format, OF up']
    by (simp add: name_command_def)
  from taken unknown show ?thesis by blast
qed

section \<open>The scope token\<close>

lemma functions_handler_has_no_scope:
  "fst (clientCommandMap c Cmd_NameFunctions m s) = Inr (JObject ps) \<Longrightarrow>
     get_prop ps ''scope'' = JUndefined"
  using name_handler_eq [of c Functions m s]
  by (auto simp: name_command_def get_prop_def split: prod.splits sum.splits option.splits)

text \<open>
  C5 fails for the command \<open>NameFunctions\<close>: the payload of
  \<open>sendFunctionNameValidationStatusToClient\<close> is \<open>{ isAvailable, reason }\<close>, without
  the scope token, so \<open>payload.scope\<close> is \<open>undefined\<close> whatever token the message
  carries. Here the handler runs on a message with the token \<open>scope-1\<close>; the App
  Service handler on the same message echoes the token. The nine other handlers echo
  it on every message (lemma \<open>scope_echoed_by_other_handlers\<close> below).
\<close>

theorem function_name_validation_drops_scope:
  "fst (clientCommandMap example_env Cmd_NameFunctions example_message example_state)
     = Inr (JObject [(''isAvailable'', JBool True), (''reason'', JUndefined)]) \<and>
   get_prop [(''isAvailable'', JBool True), (''reason'', JUndefined)] ''scope'' = JUndefined \<and>
   scope example_message = JString ''scope-1'' \<and>
   fst (clientCommandMap example_env Cmd_NameAppService example_message example_state)
     = Inr (JObject [(''scope'', JString ''scope-1''), (''isAvailable'', JBool True),
                     (''reason'', JUndefined)])"
  using name_handler_eq [of example_env Functions example_message example_state]
    name_handler_eq [of example_env AppService example_message example_state]
  by (simp add: name_command_def check_name_def updateSubscriptionItemCache_eq cache_of_def
        set_cache_def get_prop_def isAvailable_iff js_string_opt_def example_defs)


lemma get_prop_update: "get_prop (AList.update k v ps) k = v"
  by (simp add: get_prop_def update_conv')

lemma scope_echoed_by_other_handlers:
  assumes "cmd \<noteq> Cmd_NameFunctions"
    and "fst (clientCommandMap c cmd m s) = Inr (JObject ps)"
  shows "get_prop ps ''scope'' = scope m"
proof (cases cmd)
  case Cmd_Login
  with assms(2) show ?thesis
    by (auto simp: performLoginForSubscriptions_def sendUserStatusIfLoggedIn_def async_defs
          get_prop_def split: prod.splits sum.splits if_splits)
next
  case Cmd_GetUserStatus
  with assms(2) show ?thesis
    by (auto simp: sendUserStatusIfLoggedIn_def async_defs get_prop_def
          split: prod.splits sum.splits if_splits)
next
  case Cmd_Logout
  with assms(2) show ?thesis
    by (auto simp: performLogout_def async_defs get_prop_def split: prod.splits sum.splits)
next
  case Cmd_GetSubscriptionDataForCosmos
  with assms(2) show ?thesis
    by (auto simp: sendCosmosSubscriptionDataToClient_def async_defs get_prop_update
          split: prod.splits sum.splits)
next
  case Cmd_GetSubscriptionDataForAppService
  with assms(2) show ?thesis
    by (auto simp: sendAppServiceSubscriptionDataToClient_def async_defs get_prop_update
          split: prod.splits sum.splits)
next
  case Cmd_GetValidAppServiceName
  with assms(2) show ?thesis
    by (auto simp: GetValidAppServiceName_def async_defs get_prop_def
          split: prod.splits sum.splits)
next
  case Cmd_GetValidCosmosName
  with assms(2) show ?thesis
    by (auto simp: GetValidCosmosName_def async_defs get_prop_def
          split: prod.splits sum.splits)
next
  case Cmd_NameFunctions
  with assms(1) show ?thesis by simp
next
  case Cmd_NameCosmos
  with assms(2) show ?thesis
    using name_handler_eq [of c Cosmos m s]
    by (auto simp: name_command_def get_prop_def split: prod.splits sum.splits option.splits)
next
  case Cmd_NameAppService
  with assms(2) show ?thesis
    using name_handler_eq [of c AppService m s]
    by (auto simp: name_command_def get_prop_def split: prod.splits sum.splits option.splits)
qed

section \<open>The cache invariant\<close>

lemma caches_in_list_calls [simp]: "caches_in_list (s\<lparr>calls := x\<rparr>) = caches_in_list s"
  by (simp add: caches_in_list_def cache_entries_def)

lemma cache_entries_calls [simp]: "cache_entries (s\<lparr>calls := x\<rparr>) = cache_entries s"
  by (simp add: cache_entries_def)

lemma update_caches_in_list:
  assumes "caches_in_list s"
  shows "caches_in_list (snd (updateSubscriptionItemCache c kind l s))"
proof (cases "updateSubscriptionItemCache c kind l s")
  case (Pair r s')
  show ?thesis
  proof (cases "map_option label (cache_of kind s) \<noteq> Some l")
    case False
    with assms show ?thesis by (simp add: updateSubscriptionItemCache_eq)
  next
    case True
    show ?thesis
    proof (cases "List.find (\<lambda>i. label i = l) (subscriptionItemList s)")
      case None
      with True assms show ?thesis by (simp add: updateSubscriptionItemCache_eq)
    next
      case (Some item)
      then have "item \<in> set (subscriptionItemList s)"
        by (rule find_label [THEN conjunct2])
      with assms have "caches_in_list (set_cache kind item s)"
        by (cases kind) (simp_all add: caches_in_list_def cache_entries_def set_cache_def entry_in_def)
      with True Some show ?thesis by (simp add: updateSubscriptionItemCache_eq)
    qed
  qed
qed

text \<open>What a handler does to the subscription list and the caches.\<close>

lemma name_handler_state:
  "subscriptionItemList (snd (clientCommandMap c (name_command kind) m s))
     = subscriptionItemList (snd (updateSubscriptionItemCache c kind (subscription m) s)) \<and>
   cache_entries (snd (clientCommandMap c (name_command kind) m s))
     = cache_entries (snd (updateSubscriptionItemCache c kind (subscription m) s))"
  by (auto simp: name_handler_eq split: prod.splits sum.splits option.splits)

lemma name_handler_caches_in_list:
  "caches_in_list s \<Longrightarrow> caches_in_list (snd (clientCommandMap c (name_command kind) m s))"
  using name_handler_state [of c kind m s] update_caches_in_list [of s c kind "subscription m"]
  by (simp add: caches_in_list_def)

lemma getSubscriptionData_state:
  "subscriptionItemList (snd (getSubscriptionData c l t s)) = subscriptionItemList s \<and>
   cache_entries (snd (getSubscriptionData c l t s)) = cache_entries s"
  by (cases t)
     (auto simp: getSubscriptionData_def async_defs split: prod.splits sum.splits option.splits)

lemma other_handlers_state:
  assumes "cmd \<in> {Cmd_Logout, Cmd_GetSubscriptionDataForCosmos, Cmd_GetSubscriptionDataForAppService,
                  Cmd_GetValidAppServiceName, Cmd_GetValidCosmosName}"
  shows "subscriptionItemList (snd (clientCommandMap c cmd m s)) = subscriptionItemList s \<and>
         cache_entries (snd (clientCommandMap c cmd m s)) = cache_entries s"
proof -
  have "cmd = Cmd_Logout \<or> cmd = Cmd_GetSubscriptionDataForCosmos \<or>
        cmd = Cmd_GetSubscriptionDataForAppService \<or> cmd = Cmd_GetValidAppServiceName \<or>
        cmd = Cmd_GetValidCosmosName"
    using assms by simp
  then show ?thesis
  proof (elim disjE)
    assume "cmd = Cmd_Logout"
    then show ?thesis
      by (auto simp: performLogout_def async_defs split: prod.splits sum.splits)
  next
    assume "cmd = Cmd_GetSubscriptionDataForCosmos"
    then show ?thesis
      using getSubscriptionData_state [of c "subscription m" Cosmos s]
      by (auto simp: sendCosmosSubscriptionDataToClient_def async_defs split: prod.splits sum.splits)
  next
    assume "cmd = Cmd_GetSubscriptionDataForAppService"
    then show ?thesis
      using getSubscriptionData_state [of c "subscription m" AppService s]
      by (auto simp: sendAppServiceSubscriptionDataToClient_def async_defs split: prod.splits sum.splits)
  next
    assume "cmd = Cmd_GetValidAppServiceName"
    then show ?thesis
      by (auto simp: GetValidAppServiceName_def async_defs split: prod.splits sum.splits)
  next
    assume "cmd = Cmd_GetValidCosmosName"
    then show ?thesis
      by (auto simp: GetValidCosmosName_def async_defs split: prod.splits sum.splits)
  qed
qed

lemma user_status_state:
  "cache_entries (snd (sendUserStatusIfLoggedIn c m s)) = cache_entries s \<and>
   (subscriptionItemList (snd (sendUserStatusIfLoggedIn c m s)) = subscriptionItemList s \<or>
    AzureAuth_getSubscriptions c = Inr (subscriptionItemList (snd (sendUserStatusIfLoggedIn c m s))))"
  by (auto simp: sendUserStatusIfLoggedIn_def async_defs cache_entries_def
        split: prod.splits sum.splits)

lemma login_state:
  "cache_entries (snd (performLoginForSubscriptions c m s)) = cache_entries s \<and>
   (subscriptionItemList (snd (performLoginForSubscriptions c m s)) = subscriptionItemList s \<or>
    AzureAuth_getSubscriptions c
      = Inr (subscriptionItemList (snd (performLoginForSubscriptions c m s))))"
proof (cases "AzureAuth_login c")
  case (Inl e)
  then show ?thesis
    by (simp add: performLoginForSubscriptions_def async_defs cache_entries_def)
next
  case (Inr b)
  then show ?thesis
    using user_status_state [of c m "s\<lparr>calls := calls s @ [Op_login]\<rparr>"]
    by (cases b) (simp_all add: performLoginForSubscriptions_def async_defs cache_entries_def)
qed

lemma refresh_caches_in_list:
  assumes inv: "caches_in_list s"
    and keep: "refresh_keeps_caches c cmd s"
    and entries: "cache_entries s' = cache_entries s"
    and list: "subscriptionItemList s' = subscriptionItemList s \<or>
               AzureAuth_getSubscriptions c = Inr (subscriptionItemList s')"
    and cmd: "cmd = Cmd_Login \<or> cmd = Cmd_GetUserStatus"
  shows "caches_in_list s'"
  using list
proof
  assume "subscriptionItemList s' = subscriptionItemList s"
  with inv entries show ?thesis by (simp add: caches_in_list_def)
next
  assume "AzureAuth_getSubscriptions c = Inr (subscriptionItemList s')"
  with keep cmd entries show ?thesis
    by (auto simp: refresh_keeps_caches_def caches_in_list_def)
qed

lemma handler_caches_in_list:
  assumes "caches_in_list s" and "refresh_keeps_caches c cmd s"
  shows "caches_in_list (snd (clientCommandMap c cmd m s))"
proof (cases cmd)
  case Cmd_Login
  with assms show ?thesis
    using login_state [of c m s] by (auto intro: refresh_caches_in_list)
next
  case Cmd_GetUserStatus
  with assms show ?thesis
    using user_status_state [of c m s] by (auto intro: refresh_caches_in_list)
next
  case Cmd_Logout
  with assms(1) show ?thesis
    using other_handlers_state [of cmd c m s] by (simp add: caches_in_list_def)
next
  case Cmd_GetSubscriptionDataForCosmos
  with assms(1) show ?thesis
    using other_handlers_state [of cmd c m s] by (simp add: caches_in_list_def)
next
  case Cmd_GetSubscriptionDataForAppService
  with assms(1) show ?thesis
    using other_handlers_state [of cmd c m s] by (simp add: caches_in_list_def)
next
  case Cmd_GetValidAppServiceName
  with assms(1) show ?thesis
    using other_handlers_state [of cmd c m s] by (simp add: caches_in_list_def)
next
  case Cmd_GetValidCosmosName
  with assms(1) show ?thesis
    using other_handlers_state [of cmd c m s] by (simp add: caches_in_list_def)
next
  case Cmd_NameFunctions
  with assms(1) show ?thesis
    using name_handler_caches_in_list [of s c Functions m] by (simp add: name_command_def)
next
  case Cmd_NameCosmos
  with assms(1) show ?thesis
    using name_handler_caches_in_list [of s c Cosmos m] by (simp add: name_command_def)
next
  case Cmd_NameAppService
  with assms(1) show ?thesis
    using name_handler_caches_in_list [of s c AppService m] by (simp add: name_command_def)
qed

lemma run_commands_caches_in_list:
  "caches_in_list s \<Longrightarrow> refreshes_keep_caches steps s \<Longrightarrow> caches_in_list (run_commands steps s)"
proof (induction steps arbitrary: s)
  case Nil
  then show ?case by simp
next
  case (Cons step steps)
  obtain c cmd m where step: "step = (c, cmd, m)" by (cases step)
  with Cons.prems have "caches_in_list (snd (clientCommandMap c cmd m s))"
    by (simp add: handler_caches_in_list)
  with Cons step show ?case by simp
qed

text \<open>
  C4, as the code has it. No cache entry is defined in the initial state. If every
  cache entry that is not \<open>undefined\<close> is an element of the subscription list in a
  state \<open>s\<close>, then the same holds after any sequence of command-handler invocations
  from \<open>s\<close> in which every refresh of the list (by the login and the user-status
  handler) returns a list that still contains the entries cached at that moment. The
  handlers that update a cache store an element of the current list; the refresh
  replaces the list and leaves the caches as they are.
\<close>

theorem caches_in_list_while_refresh_keeps:
  "caches_in_list initial_state \<and>
   (caches_in_list s \<and> refreshes_keep_caches steps s \<longrightarrow> caches_in_list (run_commands steps s))"
  by (simp add: run_commands_caches_in_list)
     (simp add: caches_in_list_def cache_entries_def initial_state_def entry_in_def)


lemmas handler_eval =
  sendUserStatusIfLoggedIn_def sendAppServiceNameValidationStatusToClient_def
  updateAppServiceSubscriptionItemCache_def cache_is_stale_def truthy_def async_defs
  example_defs

text \<open>A sequence from the initial state: the user status fills the list, a name
  validation caches a subscription, and the user status is asked again with the same
  list returned.\<close>

theorem caches_in_list_while_refresh_keeps_witness:
  "refreshes_keep_caches
     [(example_env, Cmd_GetUserStatus, example_message),
      (example_env, Cmd_NameAppService, example_message),
      (example_env, Cmd_GetUserStatus, example_message)] initial_state \<and>
   usersAppServiceSubscriptionItemCache
     (run_commands
        [(example_env, Cmd_GetUserStatus, example_message),
         (example_env, Cmd_NameAppService, example_message),
         (example_env, Cmd_GetUserStatus, example_message)] initial_state) = Some example_payg \<and>
   caches_in_list
     (run_commands
        [(example_env, Cmd_GetUserStatus, example_message),
         (example_env, Cmd_NameAppService, example_message),
         (example_env, Cmd_GetUserStatus, example_message)] initial_state)"
proof -
  let ?steps = "[(example_env, Cmd_GetUserStatus, example_message),
      (example_env, Cmd_NameAppService, example_message),
      (example_env, Cmd_GetUserStatus, example_message)]"
  have keep: "refreshes_keep_caches ?steps initial_state"
    by (simp add: refresh_keeps_caches_def cache_entries_def entry_in_def handler_eval)
  have cache: "usersAppServiceSubscriptionItemCache (run_commands ?steps initial_state)
      = Some example_payg"
    by (simp add: handler_eval)
  have "caches_in_list (run_commands ?steps initial_state)"
    using caches_in_list_while_refresh_keeps [of initial_state ?steps] keep by blast
  with keep cache show ?thesis by blast
qed

text \<open>C4 as the spec states it fails: in the same sequence, when the second refresh
  returns a list without the cached subscription, the App Service cache still holds it
  and the invariant is broken in a reachable state.\<close>

theorem refresh_leaves_stale_cache_entry:
  "usersAppServiceSubscriptionItemCache
     (run_commands
        [(example_env, Cmd_GetUserStatus, example_message),
         (example_env, Cmd_NameAppService, example_message),
         (example_env\<lparr>AzureAuth_getSubscriptions := Inr [example_learn]\<rparr>,
          Cmd_GetUserStatus, example_message)] initial_state) = Some example_payg \<and>
   subscriptionItemList
     (run_commands
        [(example_env, Cmd_GetUserStatus, example_message),
         (example_env, Cmd_NameAppService, example_message),
         (example_env\<lparr>AzureAuth_getSubscriptions := Inr [example_learn]\<rparr>,
          Cmd_GetUserStatus, example_message)] initial_state) = [example_learn] \<and>
   \<not> caches_in_list
     (run_commands
        [(example_env, Cmd_GetUserStatus, example_message),
         (example_env, Cmd_NameAppService, example_message),
         (example_env\<lparr>AzureAuth_getSubscriptions := Inr [example_learn]\<rparr>,
          Cmd_GetUserStatus, example_message)] initial_state)"
  by (simp add: caches_in_list_def cache_entries_def entry_in_def handler_eval)

section \<open>Resource-group selections\<close>

text \<open>
  C8. For a subscription whose tenant is in the Microsoft Learn tenant set, when the
  provider lists the resource groups \<open>g, ...\<close> of the subscription,
  \<open>generateResourceGroupSelection\<close> returns the selection whose \<open>resourceGroupName\<close>
  is the name of the first group \<open>g\<close> (the generated name is not used), and every
  selection it returns for such a subscription has the name of the first listed group.
  For any other subscription it returns the selection with the generated name, without
  a provider call. Every selection it returns carries the subscription it was given
  and the location \<open>CONSTANTS.AZURE_LOCATION.CENTRAL_US\<close>.
\<close>

theorem resource_group_selection_name:
  "(IsMicrosoftLearnSubscription c item \<longrightarrow>
      (\<forall>g gs. GetResourceGroups c item = Inr (g # gs) \<longrightarrow>
         generateResourceGroupSelection c generatedName item s
           = (Inr \<lparr>subscriptionItem = item, resourceGroupName = rg_name g,
                    location = AZURE_LOCATION_CENTRAL_US c\<rparr>,
              s\<lparr>calls := calls s @ [Op_GetResourceGroups]\<rparr>)) \<and>
      (\<forall>sel s'. generateResourceGroupSelection c generatedName item s = (Inr sel, s') \<longrightarrow>
         (\<exists>g gs. GetResourceGroups c item = Inr (g # gs) \<and> resourceGroupName sel = rg_name g))) \<and>
   (\<not> IsMicrosoftLearnSubscription c item \<longrightarrow>
      generateResourceGroupSelection c generatedName item s
        = (Inr \<lparr>subscriptionItem = item, resourceGroupName = Some generatedName,
                 location = AZURE_LOCATION_CENTRAL_US c\<rparr>, s)) \<and>
   (\<forall>sel s'. generateResourceGroupSelection c generatedName item s = (Inr sel, s') \<longrightarrow>
      location sel = AZURE_LOCATION_CENTRAL_US c \<and> subscriptionItem sel = item)"
proof (intro conjI allI impI)
  fix g gs
  assume "IsMicrosoftLearnSubscription c item" "GetResourceGroups c item = Inr (g # gs)"
  then show "generateResourceGroupSelection c generatedName item s
           = (Inr \<lparr>subscriptionItem = item, resourceGroupName = rg_name g,
                    location = AZURE_LOCATION_CENTRAL_US c\<rparr>,
              s\<lparr>calls := calls s @ [Op_GetResourceGroups]\<rparr>)"
    by (simp add: generateResourceGroupSelection_def async_defs)
next
  fix sel s'
  assume "IsMicrosoftLearnSubscription c item"
    "generateResourceGroupSelection c generatedName item s = (Inr sel, s')"
  then show "\<exists>g gs. GetResourceGroups c item = Inr (g # gs) \<and> resourceGroupName sel = rg_name g"
    by (auto simp: generateResourceGroupSelection_def async_defs split: sum.splits list.splits)
next
  assume "\<not> IsMicrosoftLearnSubscription c item"
  then show "generateResourceGroupSelection c generatedName item s
        = (Inr \<lparr>subscriptionItem = item, resourceGroupName = Some generatedName,
                 location = AZURE_LOCATION_CENTRAL_US c\<rparr>, s)"
    by (simp add: generateResourceGroupSelection_def async_defs)
next
  fix sel s'
  assume a: "generateResourceGroupSelection c generatedName item s = (Inr sel, s')"
  then show "location sel = AZURE_LOCATION_CENTRAL_US c"
    by (auto simp: generateResourceGroupSelection_def async_defs
          split: if_splits sum.splits list.splits)
  from a show "subscriptionItem sel = item"
    by (auto simp: generateResourceGroupSelection_def async_defs
          split: if_splits sum.splits list.splits)
qed

text \<open>A Learn subscription with one resource group, and a subscription of another
  tenant.\<close>

theorem resource_group_selection_name_witness:
  "fst (generateResourceGroupSelection example_env ''generated-rg'' example_learn example_state)
     = Inr \<lparr>subscriptionItem = example_learn, resourceGroupName = Some ''sandbox-rg'',
             location = ''Central US''\<rparr> \<and>
   fst (generateResourceGroupSelection example_env ''generated-rg'' example_payg example_state)
     = Inr \<lparr>subscriptionItem = example_payg, resourceGroupName = Some ''generated-rg'',
             location = ''Central US''\<rparr>"
proof -
  have learn: "IsMicrosoftLearnSubscription example_env example_learn"
    by (simp add: IsMicrosoftLearnSubscription_def example_defs)
  have groups: "GetResourceGroups example_env example_learn
      = Inr [\<lparr>rg_name = Some ''sandbox-rg''\<rparr>]"
    by (simp add: example_env_def)
  have payg: "\<not> IsMicrosoftLearnSubscription example_env example_payg"
    by (simp add: IsMicrosoftLearnSubscription_def example_defs)
  have loc: "AZURE_LOCATION_CENTRAL_US example_env = ''Central US''"
    by (simp add: example_env_def)
  have "fst (generateResourceGroupSelection example_env ''generated-rg'' example_learn example_state)
     = Inr \<lparr>subscriptionItem = example_learn, resourceGroupName = Some ''sandbox-rg'',
             location = ''Central US''\<rparr>"
    using resource_group_selection_name
      [of example_env example_learn "''generated-rg''" example_state,
       THEN conjunct1, rule_format, OF learn, THEN conjunct1, rule_format, OF groups]
    by (simp add: loc)
  moreover have
    "fst (generateResourceGroupSelection example_env ''generated-rg'' example_payg example_state)
     = Inr \<lparr>subscriptionItem = example_payg, resourceGroupName = Some ''generated-rg'',
             location = ''Central US''\<rparr>"
    using resource_group_selection_name
      [of example_env example_payg "''generated-rg''" example_state,
       THEN conjunct2, THEN conjunct1, rule_format, OF payg]
    by (simp add: loc)
  ultimately show ?thesis by blast
qed

text \<open>
  C10. When the subscription of the selection is not a Microsoft Learn subscription,
  \<open>deployResourceGroup\<close> invokes \<open>createResourceGroup\<close> on the selection and its
  outcome is that of the provider (the value it resolves to, or its rejection); when it
  is a Learn subscription, \<open>deployResourceGroup\<close> resolves to \<open>undefined\<close> and the
  state, the record of provider calls included, is unchanged. So the provider is
  invoked if and only if the subscription is not a Learn subscription.
\<close>

theorem deployResourceGroup_skips_learn:
  "(\<not> IsMicrosoftLearnSubscription c (subscriptionItem selections) \<longrightarrow>
      deployResourceGroup c selections s
        = (createResourceGroup c selections, s\<lparr>calls := calls s @ [Op_createResourceGroup]\<rparr>)) \<and>
   (IsMicrosoftLearnSubscription c (subscriptionItem selections) \<longrightarrow>
      deployResourceGroup c selections s = (Inr JUndefined, s)) \<and>
   (calls (snd (deployResourceGroup c selections s)) = calls s @ [Op_createResourceGroup]
      \<longleftrightarrow> \<not> IsMicrosoftLearnSubscription c (subscriptionItem selections))"
  by (simp add: deployResourceGroup_def async_defs)

text \<open>A selection on a subscription of an ordinary tenant, and one on a Learn
  subscription.\<close>

theorem deployResourceGroup_skips_learn_witness:
  "deployResourceGroup example_env
       \<lparr>subscriptionItem = example_payg, resourceGroupName = Some ''rg'', location = ''Central US''\<rparr>
       example_state
     = (Inr (JString ''created''), example_state\<lparr>calls := [Op_createResourceGroup]\<rparr>) \<and>
   deployResourceGroup example_env
       \<lparr>subscriptionItem = example_learn, resourceGroupName = Some ''rg'', location = ''Central US''\<rparr>
       example_state
     = (Inr JUndefined, example_state)"
proof -
  have payg: "\<not> IsMicrosoftLearnSubscription example_env example_payg"
    by (simp add: IsMicrosoftLearnSubscription_def example_defs)
  have learn: "IsMicrosoftLearnSubscription example_env example_learn"
    by (simp add: IsMicrosoftLearnSubscription_def example_defs)
  have "deployResourceGroup example_env
       \<lparr>subscriptionItem = example_payg, resourceGroupName = Some ''rg'', location = ''Central US''\<rparr>
       example_state
     = (Inr (JString ''created''), example_state\<lparr>calls := [Op_createResourceGroup]\<rparr>)"
    using deployResourceGroup_skips_learn
      [of example_env "\<lparr>subscriptionItem = example_payg, resourceGroupName = Some ''rg'',
          location = ''Central US''\<rparr>" example_state, THEN conjunct1] payg
    by (simp add: example_env_def example_state_def initial_state_def)
  moreover have "deployResourceGroup example_env
       \<lparr>subscriptionItem = example_learn, resourceGroupName = Some ''rg'', location = ''Central US''\<rparr>
       example_state
     = (Inr JUndefined, example_state)"
    using deployResourceGroup_skips_learn
      [of example_env "\<lparr>subscriptionItem = example_learn, resourceGroupName = Some ''rg'',
          location = ''Central US''\<rparr>" example_state, THEN conjunct2, THEN conjunct1] learn
    by simp
  ultimately show ?thesis by blast
qed

section \<open>Deployment\<close>

text \<open>The callback after the name check throws exactly when the reason is the empty
  string.\<close>

lemma throw_if_invalid_eq:
  "throw_if_invalid r = (if r = Some [] then throw (ValidationError []) else resolve ())"
  by (cases r) (simp_all add: throw_if_invalid_def)

lemmas deploy_eval =
  deployWebApp_def deployFunctionApp_def deployCosmosResource_def throw_if_invalid_eq
  updateAppServiceSubscriptionItemCache_def updateFunctionSubscriptionItemCache_def
  updateCosmosDBSubscriptionItemCache_def cache_is_stale_def IsMicrosoftLearnSubscription_def
  async_defs example_defs example_payload_def example_function_selections_def
  example_cosmos_selections_def Let_def

text \<open>
  C1 fails on the code. The name check answers the name \<open>taken\<close> with a non-empty
  reason; each of \<open>deployWebApp\<close>, \<open>deployFunctionApp\<close> and
  \<open>deployCosmosResource\<close> goes on to the provider's create operation and returns its
  result, with no \<open>ValidationError\<close>. When the check resolves to the empty reason,
  which the claim counts as "name available", \<open>deployWebApp\<close> throws
  \<open>ValidationError("")\<close> and does not create.
\<close>

theorem deploy_creates_despite_invalid_reason:
  "checkWebAppName example_env ''taken'' example_payg = Inr (Some ''name is not available'') \<and>
   fst (deployWebApp example_env example_payload example_state)
     = Inr ''/rg/Microsoft.Web/sites/taken'' \<and>
   calls (snd (deployWebApp example_env example_payload example_state))
     = [Op_generateValidASPName, Op_getResourceGroupItem, Op_checkWebAppName, Op_createWebApp] \<and>
   fst (deployFunctionApp example_env example_function_selections ''/tmp/app'' example_state)
     = Inr () \<and>
   calls (snd (deployFunctionApp example_env example_function_selections ''/tmp/app'' example_state))
     = [Op_getResourceGroupItem, Op_checkFunctionAppName, Op_createFunctionApp] \<and>
   fst (deployCosmosResource example_env example_cosmos_selections ''/tmp/app'' example_state)
     = Inr \<lparr>connectionString = ''A=1''\<rparr> \<and>
   calls (snd (deployCosmosResource example_env example_cosmos_selections ''/tmp/app'' example_state))
     = [Op_getResourceGroupItem, Op_validateCosmosDBAccountName, Op_createCosmosDB] \<and>
   checkWebAppName example_env [] example_payg = Inr (Some []) \<and>
   deployWebApp example_env (example_payload\<lparr>appService_siteName := []\<rparr>) example_state
     = (Inl (ValidationError []),
        example_state\<lparr>usersAppServiceSubscriptionItemCache := Some example_payg,
          calls := [Op_generateValidASPName, Op_getResourceGroupItem, Op_checkWebAppName]\<rparr>)"
  by (simp add: deploy_eval convertId_eval)

section \<open>Distinct resource-group selections\<close>



lemma await_Inr:
  "await m f s = (Inr y, s') \<Longrightarrow> \<exists>x s1. m s = (Inr x, s1) \<and> f x s1 = (Inr y, s')"
  by (auto simp: await_def split: prod.splits sum.splits)




lemma await_resolved: "m s = (Inr x, s1) \<Longrightarrow> await m f s = f x s1"
  by (simp add: await_def)





lemma resolved_entry_hit:
  "map_option label (cache_of kind s) = Some l \<Longrightarrow> resolved_entry kind l s = cache_of kind s"
  unfolding resolved_entry_def by (rule if_P)

lemma resolved_entry_miss:
  "map_option label (cache_of kind s) \<noteq> Some l \<Longrightarrow>
     resolved_entry kind l s = List.find (\<lambda>item. label item = l) (subscriptionItemList s)"
  unfolding resolved_entry_def by (rule if_not_P)

lemma resolved_entry_label: "resolved_entry kind l s = Some item \<Longrightarrow> label item = l"
proof (cases "map_option label (cache_of kind s) = Some l")
  case True
  assume "resolved_entry kind l s = Some item"
  with resolved_entry_hit [OF True] have "cache_of kind s = Some item" by simp
  with True show ?thesis by simp
next
  case False
  assume "resolved_entry kind l s = Some item"
  with resolved_entry_miss [OF False]
  have "List.find (\<lambda>i. label i = l) (subscriptionItemList s) = Some item"
    by simp
  then show ?thesis by (rule find_label [THEN conjunct1])
qed



















lemmas planning_eval =
  generateDistinctResourceGroupSelections_def generateResourceGroupSelection_def
  new_Set_def Set_add_def
  updateAppServiceSubscriptionItemCache_def updateFunctionSubscriptionItemCache_def
  updateCosmosDBSubscriptionItemCache_def cache_is_stale_def IsMicrosoftLearnSubscription_def
  async_defs example_defs example_payload_def



text \<open>The payload with App Service on the Learn subscription: two selections, the
  second with the name of the sandbox's resource group.\<close>

lemma two_subscriptions_two_selections:
  "fst (generateDistinctResourceGroupSelections example_env
          (example_payload\<lparr>appService_subscription := ''Learn Sandbox''\<rparr>) example_state)
     = Inr [\<lparr>subscriptionItem = example_payg, resourceGroupName = Some ''myproject-rg'',
              location = ''Central US''\<rparr>,
            \<lparr>subscriptionItem = example_learn, resourceGroupName = Some ''sandbox-rg'',
              location = ''Central US''\<rparr>]"
  by (simp add: planning_eval)

end
